theory Spec2Isabelle
  imports Complex_Main
begin

section \<open>Values, exceptions and the remote wiki\<close>

text \<open>
  The bot (\<^verbatim>\<open>bot.py\<close>) talks to a MediaWiki API and handles what comes back as
  untyped Python values. A decoded JSON payload is a \<open>json\<close> value: \<open>JNull\<close> is
  Python's \<^verbatim>\<open>None\<close>, an object is the decoded \<^verbatim>\<open>dict\<close> with its entries in
  insertion order. A Python \<^verbatim>\<open>str\<close> is a \<open>string\<close>, one \<open>char\<close> per code point.
  A number is kept by its value; the code never computes with the numbers of a payload.
\<close>

datatype json =
    JNull
  | JBool bool
  | JNum rat
  | JStr string
  | JArr "json list"
  | JObj "(string \<times> json) list"

text \<open>The exceptions the modelled code can raise; none of them is caught in \<^verbatim>\<open>bot.py\<close>.\<close>

datatype exn =
    ClientError
  | JSONDecodeError
  | TypeError
  | KeyError
  | IndexError
  | AttributeError

definition bind_exn :: "exn + 'a \<Rightarrow> ('a \<Rightarrow> exn + 'b) \<Rightarrow> exn + 'b" where
  "bind_exn m f = (case m of Inl e \<Rightarrow> Inl e | Inr x \<Rightarrow> f x)"

fun map_exn :: "('a \<Rightarrow> exn + 'b) \<Rightarrow> 'a list \<Rightarrow> exn + 'b list" where
  "map_exn f [] = Inr []"
| "map_exn f (x # xs) =
     bind_exn (f x) (\<lambda>y. bind_exn (map_exn f xs) (\<lambda>ys. Inr (y # ys)))"

subsection \<open>The Python operations the code applies to payloads\<close>

text \<open>\<^verbatim>\<open>len(x)\<close>: defined on sequences and dicts, a \<^verbatim>\<open>TypeError\<close> otherwise.\<close>

fun py_len :: "json \<Rightarrow> exn + nat" where
  "py_len (JArr xs) = Inr (length xs)"
| "py_len (JStr s) = Inr (length s)"
| "py_len (JObj kvs) = Inr (length kvs)"
| "py_len _ = Inl TypeError"

text \<open>
  \<^verbatim>\<open>x[i]\<close> for a literal index \<open>i \<ge> 0\<close>: an element of a list, a one-character string of
  a string, an \<^verbatim>\<open>IndexError\<close> out of range; a dict decoded from JSON has string keys only,
  so an integer key is a \<^verbatim>\<open>KeyError\<close>.
\<close>

fun py_index :: "json \<Rightarrow> nat \<Rightarrow> exn + json" where
  "py_index (JArr xs) i = (if i < length xs then Inr (xs ! i) else Inl IndexError)"
| "py_index (JStr s) i = (if i < length s then Inr (JStr [s ! i]) else Inl IndexError)"
| "py_index (JObj kvs) i = Inl KeyError"
| "py_index _ i = Inl TypeError"

text \<open>
  Iteration (\<^verbatim>\<open>for r in x\<close>, \<^verbatim>\<open>zip(x, ...)\<close>): the elements of a list, the characters of
  a string, the keys of a dict; anything else is not iterable.
\<close>

fun py_iter :: "json \<Rightarrow> exn + json list" where
  "py_iter (JArr xs) = Inr xs"
| "py_iter (JStr s) = Inr (map (\<lambda>c. JStr [c]) s)"
| "py_iter (JObj kvs) = Inr (map (\<lambda>kv. JStr (fst kv)) kvs)"
| "py_iter _ = Inl TypeError"

text \<open>\<^verbatim>\<open>x.get(key, default)\<close>: only a dict has the method.\<close>

fun py_get :: "json \<Rightarrow> string \<Rightarrow> json \<Rightarrow> exn + json" where
  "py_get (JObj kvs) k d = Inr (case map_of kvs k of Some v \<Rightarrow> v | None \<Rightarrow> d)"
| "py_get _ k d = Inl AttributeError"

text \<open>\<^verbatim>\<open>x.items()\<close> (and \<^verbatim>\<open>x.values()\<close>, its second components): only a dict has them.\<close>

fun py_items :: "json \<Rightarrow> exn + (string \<times> json) list" where
  "py_items (JObj kvs) = Inr kvs"
| "py_items _ = Inl AttributeError"

text \<open>
  \<^verbatim>\<open>s.replace(old, new)\<close> on strings: every non-overlapping occurrence of \<open>old\<close>, left
  to right. With an empty \<open>old\<close> Python puts \<open>new\<close> before every character and at the end.
\<close>

function replace :: "string \<Rightarrow> string \<Rightarrow> string \<Rightarrow> string" where
  "replace old new s =
     (if old = [] then new @ concat (map (\<lambda>c. c # new) s)
      else if s = [] then []
      else if take (length old) s = old then new @ replace old new (drop (length old) s)
      else hd s # replace old new (tl s))"
  by pat_completeness auto
termination
  by (relation "measure (\<lambda>(old, new, s). length s)") auto

declare replace.simps [simp del]

text \<open>\<^verbatim>\<open>x.replace(old, new)\<close> on a payload value: only a \<^verbatim>\<open>str\<close> has the method.\<close>

fun py_replace :: "json \<Rightarrow> string \<Rightarrow> string \<Rightarrow> exn + string" where
  "py_replace (JStr s) old new = Inr (replace old new s)"
| "py_replace _ old new = Inl AttributeError"

text \<open>\<^verbatim>\<open>str(n)\<close> of an integer: its decimal digits.\<close>

fun str_nat :: "nat \<Rightarrow> string" where
  "str_nat n =
     (if n < 10 then [char_of (48 + n)]
      else str_nat (n div 10) @ [char_of (48 + n mod 10)])"

declare str_nat.simps [simp del]

definition str_int :: "int \<Rightarrow> string" where
  "str_int i = (if i < 0 then CHR ''-'' # str_nat (nat (- i)) else str_nat (nat i))"

subsection \<open>Requests, responses and the session\<close>

text \<open>
  A request is the \<^verbatim>\<open>params\<close> dict of a GET to \<^verbatim>\<open>WIKI_API_URL\<close>. The remote side is a
  function from the requests made so far and the request at hand to what
  \<^verbatim>\<open>session.get\<close> gives: no response at all (\<^verbatim>\<open>aiohttp\<close> raises a \<^verbatim>\<open>ClientError\<close>),
  or a status and a body, where \<^verbatim>\<open>resp.json()\<close> raises on a body that is not JSON.
  An operation takes the list of requests made so far and returns it extended, so
  that the calls an operation makes can be counted.
\<close>

type_synonym request = "(string \<times> string) list"

datatype body = NotJson | Json json

datatype response = NoResponse | Response int body

type_synonym server = "request list \<Rightarrow> request \<Rightarrow> response"

type_synonym 'a io = "request list \<Rightarrow> (exn + 'a) \<times> request list"

definition bind_io :: "'a io \<Rightarrow> ('a \<Rightarrow> 'b io) \<Rightarrow> 'b io" where
  "bind_io m f h = (case m h of (Inl e, h') \<Rightarrow> (Inl e, h') | (Inr x, h') \<Rightarrow> f x h')"

definition return_io :: "'a \<Rightarrow> 'a io" where
  "return_io x h = (Inr x, h)"

text \<open>
  The skeleton every client method shares:
  \<^verbatim>\<open>async with self.session.get(self.api_url, params=params) as resp:
      if resp.status == 200:
          data = await resp.json()
          ...
  return <fallback>\<close>
  \<open>on_ok\<close> is the body of the \<^verbatim>\<open>if\<close>, which also yields the fallback where it falls
  through.
\<close>

definition session_get :: "server \<Rightarrow> request \<Rightarrow> (json \<Rightarrow> exn + 'a) \<Rightarrow> 'a \<Rightarrow> 'a io" where
  "session_get remote params on_ok fallback h =
     (case remote h params of
        NoResponse \<Rightarrow> (Inl ClientError, h @ [params])
      | Response status b \<Rightarrow>
          if status = 200 then
            (case b of
               NotJson \<Rightarrow> (Inl JSONDecodeError, h @ [params])
             | Json data \<Rightarrow> (on_ok data, h @ [params]))
          else (Inr fallback, h @ [params]))"

definition WIKI_BASE_URL :: string where
  "WIKI_BASE_URL = ''https://hytalewiki.org''"

section \<open>The client: class WikiAPI\<close>

text \<open>
  The result dicts of the search methods, \<^verbatim>\<open>{"title", "description", "url"}\<close>, to
  which the fuzzy stages add the key \<^verbatim>\<open>"score"\<close>: \<open>score = None\<close> is a dict without
  that key. A score is the float the scorer returned, kept by its value.
\<close>

record candidate =
  title :: json
  description :: json
  url :: json
  score :: "rat option"

text \<open>The dict \<^verbatim>\<open>get_page_extract\<close> returns.\<close>

record page =
  page_title :: json
  page_extract :: json
  page_url :: json
  page_thumbnail :: json

subsection \<open>search\<close>

definition search_params :: "string \<Rightarrow> int \<Rightarrow> request" where
  "search_params query limit =
     [(''action'', ''opensearch''), (''search'', query), (''limit'', str_int limit),
      (''namespace'', ''0''), (''format'', ''json'')]"

definition search_parse :: "json \<Rightarrow> exn + candidate list" where
  "search_parse data =
     bind_exn (py_len data) (\<lambda>n.
       if n \<ge> 4 then
         bind_exn (py_index data 1) (\<lambda>titles.
         bind_exn (py_index data 2) (\<lambda>descriptions.
         bind_exn (py_index data 3) (\<lambda>urls.
         bind_exn (py_iter titles) (\<lambda>ts.
         bind_exn (py_iter descriptions) (\<lambda>ds.
         bind_exn (py_iter urls) (\<lambda>us.
           Inr (map (\<lambda>(t, d, u). \<lparr>title = t, description = d, url = u, score = None\<rparr>)
                  (zip ts (zip ds us)))))))))
       else Inr [])"

definition search :: "server \<Rightarrow> string \<Rightarrow> int \<Rightarrow> candidate list io" where
  "search remote query limit = session_get remote (search_params query limit) search_parse []"

subsection \<open>search_full\<close>

definition search_full_params :: "string \<Rightarrow> int \<Rightarrow> request" where
  "search_full_params query limit =
     [(''action'', ''query''), (''list'', ''search''), (''srsearch'', query),
      (''srlimit'', str_int limit), (''format'', ''json'')]"

text \<open>The highlighting markup \<^verbatim>\<open><span class="searchmatch">\<close> that is cut out of a snippet.\<close>

definition searchmatch_open :: string where
  "searchmatch_open = ''<span class='' @ [CHR 0x22] @ ''searchmatch'' @ [CHR 0x22] @ ''>''"

text \<open>One element of the list comprehension of \<^verbatim>\<open>search_full\<close>, its values in source order.\<close>

definition search_full_record :: "json \<Rightarrow> exn + candidate" where
  "search_full_record r =
     bind_exn (py_get r ''title'' JNull) (\<lambda>t.
     bind_exn (py_get r ''snippet'' (JStr [])) (\<lambda>snippet.
     bind_exn (py_replace snippet searchmatch_open []) (\<lambda>d1.
     bind_exn (py_replace (JStr d1) ''</span>'' []) (\<lambda>d2.
     bind_exn (py_get r ''title'' JNull) (\<lambda>t'.
     bind_exn (py_replace t' '' '' ''_'') (\<lambda>u.
       Inr \<lparr>title = t, description = JStr d2,
            url = JStr (WIKI_BASE_URL @ ''/w/'' @ u), score = None\<rparr>))))))"

definition search_full_parse :: "json \<Rightarrow> exn + candidate list" where
  "search_full_parse data =
     bind_exn (py_get data ''query'' (JObj [])) (\<lambda>q.
     bind_exn (py_get q ''search'' (JArr [])) (\<lambda>results.
     bind_exn (py_iter results) (map_exn search_full_record)))"

definition search_full :: "server \<Rightarrow> string \<Rightarrow> int \<Rightarrow> candidate list io" where
  "search_full remote query limit =
     session_get remote (search_full_params query limit) search_full_parse []"

subsection \<open>get_all_pages\<close>

definition get_all_pages_params :: "string \<Rightarrow> int \<Rightarrow> request" where
  "get_all_pages_params prefix limit =
     [(''action'', ''query''), (''list'', ''allpages''), (''aplimit'', str_int limit),
      (''apprefix'', if prefix \<noteq> [] then take 2 prefix else []), (''format'', ''json'')]"

text \<open>The titles are returned as they come: \<^verbatim>\<open>p.get("title")\<close> is \<^verbatim>\<open>None\<close> without the key.\<close>

definition get_all_pages_parse :: "json \<Rightarrow> exn + json list" where
  "get_all_pages_parse data =
     bind_exn (py_get data ''query'' (JObj [])) (\<lambda>q.
     bind_exn (py_get q ''allpages'' (JArr [])) (\<lambda>pages.
     bind_exn (py_iter pages) (map_exn (\<lambda>p. py_get p ''title'' JNull))))"

definition get_all_pages :: "server \<Rightarrow> string \<Rightarrow> int \<Rightarrow> json list io" where
  "get_all_pages remote prefix limit =
     session_get remote (get_all_pages_params prefix limit) get_all_pages_parse []"

subsection \<open>get_page_extract\<close>

definition get_page_extract_params :: "string \<Rightarrow> request" where
  "get_page_extract_params t =
     [(''action'', ''query''), (''titles'', t), (''prop'', ''extracts|pageimages|info''),
      (''exintro'', ''1''), (''explaintext'', ''1''), (''exsentences'', ''5''),
      (''piprop'', ''thumbnail''), (''pithumbsize'', ''300''), (''inprop'', ''url''),
      (''format'', ''json'')]"

text \<open>
  The default of the extract, the Spanish for "no description available"; the accented
  letter of \<^verbatim>\<open>descripcion\<close> is the code point \<open>0xF3\<close>.
\<close>

definition no_description :: string where
  "no_description = ''Sin descripci'' @ [CHR 0xF3] @ ''n disponible.''"

text \<open>
  The loop over \<^verbatim>\<open>pages.items()\<close> returns in its first iteration, so only the first
  entry counts; with no entry the method falls through to \<^verbatim>\<open>return None\<close>.
\<close>

definition get_page_extract_parse :: "string \<Rightarrow> json \<Rightarrow> exn + page option" where
  "get_page_extract_parse t data =
     bind_exn (py_get data ''query'' (JObj [])) (\<lambda>q.
     bind_exn (py_get q ''pages'' (JObj [])) (\<lambda>pages.
     bind_exn (py_items pages) (\<lambda>items.
       case items of
         [] \<Rightarrow> Inr None
       | (page_id, page_data) # _ \<Rightarrow>
           if page_id = ''-1'' then Inr None
           else
             bind_exn (py_get page_data ''title'' (JStr t)) (\<lambda>ti.
             bind_exn (py_get page_data ''extract'' (JStr no_description)) (\<lambda>ex.
             bind_exn (py_get page_data ''fullurl'' (JStr (WIKI_BASE_URL @ ''/w/'' @ t))) (\<lambda>u.
             bind_exn (py_get page_data ''thumbnail'' (JObj [])) (\<lambda>th.
             bind_exn (py_get th ''source'' JNull) (\<lambda>src.
               Inr (Some \<lparr>page_title = ti, page_extract = ex, page_url = u,
                          page_thumbnail = src\<rparr>)))))))))"

definition get_page_extract :: "server \<Rightarrow> string \<Rightarrow> page option io" where
  "get_page_extract remote t =
     session_get remote (get_page_extract_params t) (get_page_extract_parse t) None"

subsection \<open>get_categories\<close>

definition get_categories_params :: "string \<Rightarrow> request" where
  "get_categories_params t =
     [(''action'', ''query''), (''titles'', t), (''prop'', ''categories''),
      (''cllimit'', ''10''), (''format'', ''json'')]"

definition category_name :: "json \<Rightarrow> exn + string" where
  "category_name cat =
     bind_exn (py_get cat ''title'' (JStr [])) (\<lambda>t. py_replace t ''Category:'' [])"

definition get_categories_parse :: "json \<Rightarrow> exn + string list" where
  "get_categories_parse data =
     bind_exn (py_get data ''query'' (JObj [])) (\<lambda>q.
     bind_exn (py_get q ''pages'' (JObj [])) (\<lambda>pages.
     bind_exn (py_items pages) (\<lambda>items.
       case items of
         [] \<Rightarrow> Inr []
       | (page_id, page_data) # _ \<Rightarrow>
           bind_exn (py_get page_data ''categories'' (JArr [])) (\<lambda>categories.
           bind_exn (py_iter categories) (map_exn category_name)))))"

definition get_categories :: "server \<Rightarrow> string \<Rightarrow> string list io" where
  "get_categories remote t =
     session_get remote (get_categories_params t) get_categories_parse []"

section \<open>The ranking engine\<close>

text \<open>
  \<^verbatim>\<open>rapidfuzz\<close> is a library, not code of the repository. Its scorer \<^verbatim>\<open>fuzz.WRatio\<close> is
  a parameter of the model: a function of the query and a choice that returns a score or
  raises (on a choice it does not accept). So is the text that an f-string gives for a
  score, \<open>fmt\<close>.
\<close>

type_synonym scorer = "string \<Rightarrow> json \<Rightarrow> exn + rat"

type_synonym match = "json \<times> rat \<times> nat"

text \<open>A match is the tuple \<^verbatim>\<open>(choice, score, index)\<close>.\<close>

fun score_choices :: "scorer \<Rightarrow> string \<Rightarrow> json list \<Rightarrow> nat \<Rightarrow> exn + match list" where
  "score_choices sc q [] i = Inr []"
| "score_choices sc q (c # cs) i =
     (if c = JNull then score_choices sc q cs (Suc i)
      else
        bind_exn (sc q c) (\<lambda>s.
        bind_exn (score_choices sc q cs (Suc i)) (\<lambda>ms. Inr ((c, s, i) # ms))))"

text \<open>
  Modelled from the spec: \<^verbatim>\<open>process.extract(query, choices, scorer=..., limit=...)\<close> of
  \<^verbatim>\<open>rapidfuzz\<close>, the spec's \<^verbatim>\<open>rank(query, candidates, limit, scorer)\<close>: an "ordered
  sequence of (candidate, score 0-100), ordered descending by score, ties broken by
  candidate's original order", at most \<open>limit\<close> of them, with no threshold of its own.
  A choice that is \<^verbatim>\<open>None\<close> is passed over, as the library does.
\<close>

definition process_extract :: "scorer \<Rightarrow> string \<Rightarrow> json list \<Rightarrow> nat \<Rightarrow> exn + match list" where
  "process_extract sc q choices limit =
     bind_exn (score_choices sc q choices 0) (\<lambda>ms.
       Inr (take limit (sort_key (\<lambda>m. - fst (snd m)) ms)))"

section \<open>The cascade: WikiAPI.fuzzy_search\<close>

definition lift_exn :: "exn + 'a \<Rightarrow> 'a io" where
  "lift_exn r h = (r, h)"

text \<open>
  One element of the comprehension of the title-sample stage:
  \<^verbatim>\<open>{"title": match[0], "description": f"Coincidencia: {match[1]}%",
    "url": f"{self.base_url}/w/{match[0].replace(' ', '_')}", "score": match[1]}\<close>
\<close>

definition match_record :: "(rat \<Rightarrow> string) \<Rightarrow> match \<Rightarrow> exn + candidate" where
  "match_record fmt m =
     bind_exn (py_replace (fst m) '' '' ''_'') (\<lambda>u.
       Inr \<lparr>title = fst m,
            description = JStr (''Coincidencia: '' @ fmt (fst (snd m)) @ ''%''),
            url = JStr (WIKI_BASE_URL @ ''/w/'' @ u),
            score = Some (fst (snd m))\<rparr>)"

text \<open>The comprehension itself: \<^verbatim>\<open>[... for match in matches if match[1] >= threshold]\<close>.\<close>

definition match_records :: "(rat \<Rightarrow> string) \<Rightarrow> rat \<Rightarrow> match list \<Rightarrow> exn + candidate list" where
  "match_records fmt threshold matches =
     map_exn (match_record fmt) (filter (\<lambda>m. fst (snd m) \<ge> threshold) matches)"

text \<open>
  The re-ranking loop of the last stage. \<^verbatim>\<open>r["score"] = match[1]\<close> writes into a dict of
  \<^verbatim>\<open>results\<close> and \<^verbatim>\<open>scored_results.append(r)\<close> appends that same dict, so a dict
  that is found twice is in \<^verbatim>\<open>scored_results\<close> twice and shows the score written last.
  The model keeps \<^verbatim>\<open>results\<close> as the store and \<^verbatim>\<open>scored_results\<close> as the list of
  the positions appended, and reads the store at the end.
\<close>

fun first_index :: "('a \<Rightarrow> bool) \<Rightarrow> 'a list \<Rightarrow> nat option" where
  "first_index P [] = None"
| "first_index P (x # xs) = (if P x then Some 0 else map_option Suc (first_index P xs))"

fun rerank_loop :: "match list \<Rightarrow> candidate list \<Rightarrow> nat list \<Rightarrow> candidate list \<times> nat list" where
  "rerank_loop [] results scored = (results, scored)"
| "rerank_loop (m # ms) results scored =
     (case first_index (\<lambda>r. title r = fst m) results of
        None \<Rightarrow> rerank_loop ms results scored
      | Some j \<Rightarrow>
          rerank_loop ms (results[j := (results ! j)\<lparr>score := Some (fst (snd m))\<rparr>])
            (scored @ [j]))"

definition rerank :: "match list \<Rightarrow> candidate list \<Rightarrow> candidate list" where
  "rerank matches results =
     (case rerank_loop matches results [] of (store, scored) \<Rightarrow> map (\<lambda>j. store ! j) scored)"

text \<open>
  The block under \<^verbatim>\<open>if not results:\<close> after the first search. It is entered with
  \<^verbatim>\<open>results\<close> empty, and \<^verbatim>\<open>results\<close> stays so when the title sample is empty.
\<close>

definition title_sample_stage ::
  "server \<Rightarrow> scorer \<Rightarrow> (rat \<Rightarrow> string) \<Rightarrow> string \<Rightarrow> rat \<Rightarrow> candidate list io" where
  "title_sample_stage remote sc fmt query threshold =
     bind_io (get_all_pages remote query 50) (\<lambda>all_pages.
       if all_pages \<noteq> [] then
         lift_exn (bind_exn (process_extract sc query all_pages 5)
                     (match_records fmt threshold))
       else return_io [])"

text \<open>The block under the second \<^verbatim>\<open>if not results:\<close>.\<close>

definition full_text_stage :: "server \<Rightarrow> scorer \<Rightarrow> string \<Rightarrow> candidate list io" where
  "full_text_stage remote sc query =
     bind_io (search_full remote query 10) (\<lambda>results.
       if results \<noteq> [] then
         lift_exn (bind_exn (process_extract sc query (map title results) 5)
                     (\<lambda>matches. Inr (rerank matches results)))
       else return_io results)"

definition fuzzy_search ::
  "server \<Rightarrow> scorer \<Rightarrow> (rat \<Rightarrow> string) \<Rightarrow> string \<Rightarrow> rat \<Rightarrow> candidate list io" where
  "fuzzy_search remote sc fmt query threshold =
     bind_io (search remote query 10) (\<lambda>results.
     bind_io
       (if results = [] then title_sample_stage remote sc fmt query threshold
        else return_io results) (\<lambda>results.
     if results = [] then full_text_stage remote sc query
     else return_io results))"

section \<open>Direct article resolution: wiki_command\<close>

text \<open>
  What the command hands to the presentation code: a page with its categories
  (\<^verbatim>\<open>create_wiki_embed\<close>), a list of suggestions (\<^verbatim>\<open>create_search_embed\<close>), or the
  message that nothing was found.
\<close>

datatype outcome =
    Article page "string list"
  | Suggestions "candidate list"
  | NotFound

text \<open>\<^verbatim>\<open>best_match.get("score", 0)\<close>\<close>

definition score_or_0 :: "candidate \<Rightarrow> rat" where
  "score_or_0 r = (case score r of None \<Rightarrow> 0 | Some s \<Rightarrow> s)"

text \<open>
  \<^verbatim>\<open>get_page_extract(best_match["title"])\<close> is reached with a scored record only, and the
  two stages that attach a score have applied \<^verbatim>\<open>.replace\<close> to the title, which is then a
  string; the other branch is there for totality.
\<close>

definition get_page_extract_of :: "server \<Rightarrow> json \<Rightarrow> page option io" where
  "get_page_extract_of remote t =
     (case t of JStr s \<Rightarrow> get_page_extract remote s | _ \<Rightarrow> lift_exn (Inl TypeError))"

definition get_categories_of :: "server \<Rightarrow> json \<Rightarrow> string list io" where
  "get_categories_of remote t =
     (case t of JStr s \<Rightarrow> get_categories remote s | _ \<Rightarrow> lift_exn (Inl TypeError))"

definition wiki_command :: "server \<Rightarrow> scorer \<Rightarrow> (rat \<Rightarrow> string) \<Rightarrow> string \<Rightarrow> outcome io" where
  "wiki_command remote sc fmt articulo =
     bind_io (get_page_extract remote articulo) (\<lambda>page.
       case page of
         Some p \<Rightarrow>
           bind_io (get_categories remote articulo) (\<lambda>categories.
             return_io (Article p categories))
       | None \<Rightarrow>
           bind_io (fuzzy_search remote sc fmt articulo 60) (\<lambda>results.
             case results of
               [] \<Rightarrow> return_io NotFound
             | best_match # _ \<Rightarrow>
                 if score_or_0 best_match \<ge> 85 then
                   bind_io (get_page_extract_of remote (title best_match)) (\<lambda>page.
                     case page of
                       Some p \<Rightarrow>
                         bind_io (get_categories_of remote (title best_match)) (\<lambda>categories.
                           return_io (Article p categories))
                     | None \<Rightarrow> return_io (Suggestions results))
                 else return_io (Suggestions results)))"

section \<open>Wikis and scorers to run the code against\<close>

text \<open>
  Stand-ins for the remote wiki and for the scorer, as a test would mock them. Each
  wiki answers by the request alone. \<open>fmt_whole\<close> is the text Python gives for a
  whole-valued float, as in \<^verbatim>\<open>88.0\<close>.
\<close>

definition fmt_whole :: "rat \<Rightarrow> string" where
  "fmt_whole s = str_int \<lfloor>s\<rfloor> @ ''.0''"

text \<open>
  The typo \<^verbatim>\<open>Kweebek\<close>: no such page, no search hit, and a title sample in which
  \<^verbatim>\<open>Kweebec\<close> scores 88.
\<close>

definition kweebec_page :: json where
  "kweebec_page =
     JObj [(''pageid'', JNum 42), (''title'', JStr ''Kweebec''),
           (''extract'', JStr ''Kweebecs are a race of tree people.''),
           (''fullurl'', JStr ''https://hytalewiki.org/w/Kweebec'')]"

definition kweebek_wiki :: server where
  "kweebek_wiki h r =
     (if r = get_page_extract_params ''Kweebek'' then
        Response 200 (Json (JObj [(''query'', JObj [(''pages'',
          JObj [(''-1'', JObj [(''title'', JStr ''Kweebek''), (''missing'', JStr [])])])])]))
      else if r = search_params ''Kweebek'' 10 then
        Response 200 (Json (JArr [JStr ''Kweebek'', JArr [], JArr [], JArr []]))
      else if r = get_all_pages_params ''Kweebek'' 50 then
        Response 200 (Json (JObj [(''query'', JObj [(''allpages'',
          JArr [JObj [(''pageid'', JNum 42), (''title'', JStr ''Kweebec'')],
                JObj [(''pageid'', JNum 43), (''title'', JStr ''Kweebec village'')]])])]))
      else if r = get_page_extract_params ''Kweebec'' then
        Response 200 (Json (JObj [(''query'', JObj [(''pages'',
          JObj [(''42'', kweebec_page)])])]))
      else if r = get_categories_params ''Kweebec'' then
        Response 200 (Json (JObj [(''query'', JObj [(''pages'',
          JObj [(''42'', JObj [(''categories'',
            JArr [JObj [(''ns'', JNum 14), (''title'', JStr ''Category:Races'')]])])])])]))
      else Response 404 NotJson)"

definition kweebek_scorer :: scorer where
  "kweebek_scorer q c =
     (if c = JStr ''Kweebec'' then Inr 88 else if c = JStr ''Kweebec village'' then Inr 62
      else Inr 30)"

text \<open>The search \<^verbatim>\<open>blo\<close>, which the first stage answers with three hits.\<close>

definition blo_wiki :: server where
  "blo_wiki h r =
     (if r = search_params ''blo'' 10 then
        Response 200 (Json (JArr [JStr ''blo'',
          JArr [JStr ''Block'', JStr ''Blowgun'', JStr ''Bloom''],
          JArr [JStr [], JStr [], JStr []],
          JArr [JStr ''https://hytalewiki.org/w/Block'',
                JStr ''https://hytalewiki.org/w/Blowgun'',
                JStr ''https://hytalewiki.org/w/Bloom'']]))
      else Response 404 NotJson)"

text \<open>
  The search \<^verbatim>\<open>trork camp\<close>: nothing in the first two stages, two hits of the
  full-text search, the second of which scores higher.
\<close>

definition trork_wiki :: server where
  "trork_wiki h r =
     (if r = search_full_params ''trork camp'' 10 then
        Response 200 (Json (JObj [(''query'', JObj [(''search'',
          JArr [JObj [(''title'', JStr ''Trork''), (''snippet'', JStr ''A hostile race'')],
                JObj [(''title'', JStr ''Trork Camp''),
                      (''snippet'', JStr (searchmatch_open @ ''Trork</span> outpost''))]])])]))
      else Response 404 NotJson)"

definition trork_scorer :: scorer where
  "trork_scorer q c = (if c = JStr ''Trork Camp'' then Inr 95 else Inr 57)"

text \<open>A wiki that is down behind its gateway: every answer is a 503 with an HTML body.\<close>

definition down_wiki :: server where
  "down_wiki h r = Response 503 NotJson"

text \<open>A wiki whose answers are error objects, without the key \<^verbatim>\<open>query\<close>.\<close>

definition error_wiki :: server where
  "error_wiki h r =
     Response 200 (Json (JObj [(''error'', JObj [(''code'', JStr ''readapidenied'')])]))"


text \<open>A wiki that writes an empty \<^verbatim>\<open>query\<close> as a JSON array instead of an object.\<close>

definition empty_query_wiki :: server where
  "empty_query_wiki h r =
     Response 200 (Json (JObj [(''batchcomplete'', JStr []), (''query'', JArr [])]))"

text \<open>A page whose \<^verbatim>\<open>thumbnail\<close> is the address itself instead of an object.\<close>

definition thumb_wiki :: server where
  "thumb_wiki h r =
     Response 200 (Json (JObj [(''query'', JObj [(''pages'',
       JObj [(''42'', JObj [(''title'', JStr ''Kweebec''),
                            (''thumbnail'', JStr ''https://hytalewiki.org/Kweebec.png'')])])])]))"

text \<open>A page of which the wiki reports nothing but its id.\<close>

definition bare_wiki :: server where
  "bare_wiki h r =
     Response 200 (Json (JObj [(''query'', JObj [(''pages'',
       JObj [(''42'', JObj [(''pageid'', JNum 42)])])])]))"

text \<open>
  The wiki of the typo \<^verbatim>\<open>Kweebek\<close> again, but the connection is lost on the request
  for the categories of \<^verbatim>\<open>Kweebec\<close>.
\<close>

definition categories_lost_wiki :: server where
  "categories_lost_wiki h r =
     (if r = get_categories_params ''Kweebec'' then NoResponse else kweebek_wiki h r)"

section \<open>Basic facts\<close>

lemma bind_exn_simps [simp]:
  "bind_exn (Inl e) f = Inl e"
  "bind_exn (Inr x) f = f x"
  by (simp_all add: bind_exn_def)

lemma bind_exn_eq_Inr:
  "bind_exn m f = Inr y \<longleftrightarrow> (\<exists>x. m = Inr x \<and> f x = Inr y)"
  by (cases m) simp_all

lemma str_int_10 [simp]: "str_int 10 = ''10''"
  by code_simp

lemma str_int_50 [simp]: "str_int 50 = ''50''"
  by code_simp

lemma session_get_log: "snd (session_get remote params on_ok d h) = h @ [params]"
  by (simp add: session_get_def split: response.splits body.splits)

lemma session_get_other_status:
  "remote h params = Response st b \<Longrightarrow> st \<noteq> 200 \<Longrightarrow>
   session_get remote params on_ok d h = (Inr d, h @ [params])"
  by (simp add: session_get_def)

lemma session_get_200:
  "remote h params = Response 200 (Json data) \<Longrightarrow>
   session_get remote params on_ok d h = (on_ok data, h @ [params])"
  by (simp add: session_get_def)

section \<open>The defaults of get_page_extract\<close>

text \<open>
  C10. When \<^verbatim>\<open>get_page_extract\<close> resolves a page (a 200 answer whose first entry under
  \<^verbatim>\<open>query.pages\<close> is the object \<open>page_data\<close>), a \<open>page_data\<close> without the key
  \<^verbatim>\<open>extract\<close> gives as the extract the fixed placeholder,
  \<^verbatim>\<open>Sin descripci\<close>, the letter o with an acute accent (code point \<open>0xF3\<close>) and
  \<^verbatim>\<open>n disponible.\<close>, which is not the empty string; and a \<open>page_data\<close> without the key
  \<^verbatim>\<open>fullurl\<close> gives the URL made of the base URL, \<^verbatim>\<open>/w/\<close> and the requested title.
\<close>

theorem get_page_extract_missing_fields:
  assumes resp: "remote h (get_page_extract_params t) = Response 200 (Json data)"
    and q: "py_get data ''query'' (JObj []) = Inr q"
    and pages: "py_get q ''pages'' (JObj []) = Inr (JObj ((page_id, JObj page_data) # rest))"
    and ret: "get_page_extract remote t h = (Inr (Some p), h')"
  shows "(map_of page_data ''extract'' = None \<longrightarrow>
            page_extract p = JStr (''Sin descripci'' @ [CHR 0xF3] @ ''n disponible.''))
       \<and> (map_of page_data ''fullurl'' = None \<longrightarrow>
            page_url p = JStr (''https://hytalewiki.org/w/'' @ t))
       \<and> ''Sin descripci'' @ [CHR 0xF3] @ ''n disponible.'' \<noteq> []"
proof -
  from ret resp have "get_page_extract_parse t data = Inr (Some p)"
    by (simp add: get_page_extract_def session_get_200)
  with q pages show ?thesis
    by (auto simp: get_page_extract_parse_def bind_exn_eq_Inr WIKI_BASE_URL_def no_description_def
        split: if_splits)
qed

text \<open>The theorem at a page of which the wiki reports nothing but its id.\<close>

theorem get_page_extract_missing_fields_witness:
  "get_page_extract bare_wiki ''Kweebec'' [] =
     (Inr (Some \<lparr>page_title = JStr ''Kweebec'',
                 page_extract = JStr (''Sin descripci'' @ [CHR 0xF3] @ ''n disponible.''),
                 page_url = JStr ''https://hytalewiki.org/w/Kweebec'',
                 page_thumbnail = JNull\<rparr>), [get_page_extract_params ''Kweebec''])
   \<and> map_of [(''pageid'', JNum 42)] ''extract'' = None
   \<and> map_of [(''pageid'', JNum 42)] ''fullurl'' = None
   \<and> page_extract \<lparr>page_title = JStr ''Kweebec'',
                 page_extract = JStr (''Sin descripci'' @ [CHR 0xF3] @ ''n disponible.''),
                 page_url = JStr ''https://hytalewiki.org/w/Kweebec'',
                 page_thumbnail = JNull\<rparr>
       = JStr (''Sin descripci'' @ [CHR 0xF3] @ ''n disponible.'')
   \<and> page_url \<lparr>page_title = JStr ''Kweebec'',
                 page_extract = JStr (''Sin descripci'' @ [CHR 0xF3] @ ''n disponible.''),
                 page_url = JStr ''https://hytalewiki.org/w/Kweebec'',
                 page_thumbnail = JNull\<rparr>
       = JStr ''https://hytalewiki.org/w/Kweebec''"
proof -
  have resp: "bare_wiki [] (get_page_extract_params ''Kweebec'') =
      Response 200 (Json (JObj [(''query'', JObj [(''pages'',
        JObj [(''42'', JObj [(''pageid'', JNum 42)])])])]))"
    by (simp add: bare_wiki_def)
  have q: "py_get (JObj [(''query'', JObj [(''pages'',
        JObj [(''42'', JObj [(''pageid'', JNum 42)])])])]) ''query'' (JObj []) =
      Inr (JObj [(''pages'', JObj [(''42'', JObj [(''pageid'', JNum 42)])])])"
    by simp
  have pages: "py_get (JObj [(''pages'', JObj [(''42'', JObj [(''pageid'', JNum 42)])])])
        ''pages'' (JObj []) = Inr (JObj ((''42'', JObj [(''pageid'', JNum 42)]) # []))"
    by simp
  have ret: "get_page_extract bare_wiki ''Kweebec'' [] =
     (Inr (Some \<lparr>page_title = JStr ''Kweebec'',
                 page_extract = JStr (''Sin descripci'' @ [CHR 0xF3] @ ''n disponible.''),
                 page_url = JStr ''https://hytalewiki.org/w/Kweebec'',
                 page_thumbnail = JNull\<rparr>), [get_page_extract_params ''Kweebec''])"
    by (simp add: bare_wiki_def get_page_extract_def session_get_def get_page_extract_parse_def
        WIKI_BASE_URL_def no_description_def)
  from get_page_extract_missing_fields [OF resp q pages ret] ret show ?thesis by simp
qed

section \<open>What the client returns, and when it raises\<close>

lemma py_items_Inr: "py_items x = Inr kvs \<longleftrightarrow> x = JObj kvs"
  by (cases x) auto

lemma py_get_Inr: "py_get x k d = Inr v \<longleftrightarrow> (\<exists>kvs. x = JObj kvs \<and> v = (case map_of kvs k of Some w \<Rightarrow> w | None \<Rightarrow> d))"
  by (cases x) auto

lemma session_get_Inr:
  "session_get remote params on_ok d h = (Inr r, h') \<Longrightarrow>
   h' = h @ [params] \<and>
   (\<exists>st b. remote h params = Response st b \<and>
      (if st = 200 then \<exists>data. b = Json data \<and> on_ok data = Inr r else r = d))"
  by (auto simp: session_get_def split: response.splits body.splits if_splits)

lemma get_page_extract_parse_Inr:
  assumes "get_page_extract_parse t data = Inr r"
  shows "\<exists>q pages. py_get data ''query'' (JObj []) = Inr q
           \<and> py_get q ''pages'' (JObj []) = Inr (JObj pages)
           \<and> (case pages of
                 [] \<Rightarrow> r = None
               | (pid, x) # rest \<Rightarrow>
                   if pid = ''-1'' then r = None
                   else \<exists>pd p. x = JObj pd \<and> r = Some p
                     \<and> page_title p = (case map_of pd ''title'' of Some v \<Rightarrow> v | None \<Rightarrow> JStr t)
                     \<and> page_extract p =
                         (case map_of pd ''extract'' of Some v \<Rightarrow> v | None \<Rightarrow> JStr no_description)
                     \<and> page_url p =
                         (case map_of pd ''fullurl'' of Some v \<Rightarrow> v
                          | None \<Rightarrow> JStr (WIKI_BASE_URL @ ''/w/'' @ t))
                     \<and> py_get (case map_of pd ''thumbnail'' of Some v \<Rightarrow> v | None \<Rightarrow> JObj [])
                           ''source'' JNull = Inr (page_thumbnail p))"
proof -
  from assms obtain q pages items where
    q: "py_get data ''query'' (JObj []) = Inr q" and
    pages: "py_get q ''pages'' (JObj []) = Inr pages" and
    items: "py_items pages = Inr items" and
    body: "(case items of
         [] \<Rightarrow> Inr None
       | (page_id, page_data) # _ \<Rightarrow>
           if page_id = ''-1'' then Inr None
           else
             bind_exn (py_get page_data ''title'' (JStr t)) (\<lambda>ti.
             bind_exn (py_get page_data ''extract'' (JStr no_description)) (\<lambda>ex.
             bind_exn (py_get page_data ''fullurl'' (JStr (WIKI_BASE_URL @ ''/w/'' @ t))) (\<lambda>u.
             bind_exn (py_get page_data ''thumbnail'' (JObj [])) (\<lambda>th.
             bind_exn (py_get th ''source'' JNull) (\<lambda>src.
               Inr (Some \<lparr>page_title = ti, page_extract = ex, page_url = u,
                          page_thumbnail = src\<rparr>))))))) = Inr r"
    unfolding get_page_extract_parse_def bind_exn_eq_Inr by blast
  from items have p: "pages = JObj items" by (simp add: py_items_Inr)
  have "case items of
                 [] \<Rightarrow> r = None
               | (pid, x) # rest \<Rightarrow>
                   if pid = ''-1'' then r = None
                   else \<exists>pd p. x = JObj pd \<and> r = Some p
                     \<and> page_title p = (case map_of pd ''title'' of Some v \<Rightarrow> v | None \<Rightarrow> JStr t)
                     \<and> page_extract p =
                         (case map_of pd ''extract'' of Some v \<Rightarrow> v | None \<Rightarrow> JStr no_description)
                     \<and> page_url p =
                         (case map_of pd ''fullurl'' of Some v \<Rightarrow> v
                          | None \<Rightarrow> JStr (WIKI_BASE_URL @ ''/w/'' @ t))
                     \<and> py_get (case map_of pd ''thumbnail'' of Some v \<Rightarrow> v | None \<Rightarrow> JObj [])
                           ''source'' JNull = Inr (page_thumbnail p)"
  proof (cases items)
    case Nil
    with body show ?thesis by simp
  next
    case (Cons e rest)
    obtain pid x where e: "e = (pid, x)" by (cases e)
    show ?thesis
    proof (cases "pid = ''-1''")
      case True
      with body Cons e show ?thesis by simp
    next
      case False
      with body Cons e obtain pd where "x = JObj pd"
        by (cases x) (auto simp: bind_exn_eq_Inr)
      with body Cons e False show ?thesis
        by (auto simp: bind_exn_eq_Inr split: option.splits)
    qed
  qed
  with q pages p show ?thesis by blast
qed

text \<open>What a call that returns has read, for each method of the client.\<close>

lemma map_exn_length: "map_exn f xs = Inr ys \<Longrightarrow> length ys = length xs"
  by (induction xs arbitrary: ys) (auto simp: bind_exn_eq_Inr)

lemma search_returns:
  assumes ret: "search remote q l h = (Inr rs, h')"
  shows "h' = h @ [search_params q l]
      \<and> (\<exists>st' b'. remote h (search_params q l) = Response st' b'
           \<and> (st' \<noteq> 200 \<and> rs = []
              \<or> st' = 200 \<and> (\<exists>dat m. b' = Json dat \<and> py_len dat = Inr m
                \<and> (m < 4 \<and> rs = []
                   \<or> 4 \<le> m \<and> (\<exists>y1 y2 y3 tl dl ul.
                         py_index dat 1 = Inr y1 \<and> py_index dat 2 = Inr y2
                       \<and> py_index dat 3 = Inr y3 \<and> py_iter y1 = Inr tl
                       \<and> py_iter y2 = Inr dl \<and> py_iter y3 = Inr ul
                       \<and> rs = map (\<lambda>(t, d, u). \<lparr>title = t, description = d, url = u, score = None\<rparr>)
                                  (zip tl (zip dl ul)))))))"
proof -
  from session_get_Inr [OF ret [unfolded search_def]] obtain st' b' where
    h': "h' = h @ [search_params q l]" and
    resp: "remote h (search_params q l) = Response st' b'" and
    res: "if st' = 200 then \<exists>data. b' = Json data \<and> search_parse data = Inr rs
          else rs = []"
    by blast
  have "\<exists>st' b'. remote h (search_params q l) = Response st' b'
           \<and> (st' \<noteq> 200 \<and> rs = []
              \<or> st' = 200 \<and> (\<exists>dat m. b' = Json dat \<and> py_len dat = Inr m
                \<and> (m < 4 \<and> rs = []
                   \<or> 4 \<le> m \<and> (\<exists>y1 y2 y3 tl dl ul.
                         py_index dat 1 = Inr y1 \<and> py_index dat 2 = Inr y2
                       \<and> py_index dat 3 = Inr y3 \<and> py_iter y1 = Inr tl
                       \<and> py_iter y2 = Inr dl \<and> py_iter y3 = Inr ul
                       \<and> rs = map (\<lambda>(t, d, u). \<lparr>title = t, description = d, url = u, score = None\<rparr>)
                                  (zip tl (zip dl ul))))))"
  proof (cases "st' = 200")
    case False
    with resp res show ?thesis by auto
  next
    case st: True
    with res obtain data where b: "b' = Json data" and parse: "search_parse data = Inr rs"
      by auto
    from parse obtain m where m: "py_len data = Inr m"
      and rest: "(if m \<ge> 4 then
         bind_exn (py_index data 1) (\<lambda>titles.
         bind_exn (py_index data 2) (\<lambda>descriptions.
         bind_exn (py_index data 3) (\<lambda>urls.
         bind_exn (py_iter titles) (\<lambda>ts.
         bind_exn (py_iter descriptions) (\<lambda>ds.
         bind_exn (py_iter urls) (\<lambda>us.
           Inr (map (\<lambda>(t, d, u). \<lparr>title = t, description = d, url = u, score = None\<rparr>)
                  (zip ts (zip ds us)))))))))
       else Inr []) = Inr rs"
      unfolding search_parse_def bind_exn_eq_Inr by blast
    show ?thesis
    proof (cases "m < 4")
      case True
      with rest have "rs = []" by simp
      with resp st b m True show ?thesis by auto
    next
      case False
      with rest obtain y1 y2 y3 tl dl ul where
        "py_index data 1 = Inr y1" "py_index data 2 = Inr y2" "py_index data 3 = Inr y3"
        "py_iter y1 = Inr tl" "py_iter y2 = Inr dl" "py_iter y3 = Inr ul"
        "rs = map (\<lambda>(t, d, u). \<lparr>title = t, description = d, url = u, score = None\<rparr>)
                  (zip tl (zip dl ul))"
        by (auto simp: bind_exn_eq_Inr)
      with resp st b m False show ?thesis by auto
    qed
  qed
  with h' show ?thesis by blast
qed

lemma search_full_returns:
  assumes ret: "search_full remote q l h = (Inr rs, h')"
  shows "h' = h @ [search_full_params q l]
      \<and> (\<exists>st' b'. remote h (search_full_params q l) = Response st' b'
           \<and> (st' \<noteq> 200 \<and> rs = []
              \<or> st' = 200 \<and> (\<exists>dat qu re hits. b' = Json dat
                \<and> py_get dat ''query'' (JObj []) = Inr qu
                \<and> py_get qu ''search'' (JArr []) = Inr re \<and> py_iter re = Inr hits
                \<and> map_exn search_full_record hits = Inr rs
                \<and> length rs = length hits)))"
proof -
  from session_get_Inr [OF ret [unfolded search_full_def]] obtain st' b' where
    h': "h' = h @ [search_full_params q l]" and
    resp: "remote h (search_full_params q l) = Response st' b'" and
    res: "if st' = 200 then \<exists>data. b' = Json data \<and> search_full_parse data = Inr rs
          else rs = []"
    by blast
  have "\<exists>st' b'. remote h (search_full_params q l) = Response st' b'
           \<and> (st' \<noteq> 200 \<and> rs = []
              \<or> st' = 200 \<and> (\<exists>dat qu re hits. b' = Json dat
                \<and> py_get dat ''query'' (JObj []) = Inr qu
                \<and> py_get qu ''search'' (JArr []) = Inr re \<and> py_iter re = Inr hits
                \<and> map_exn search_full_record hits = Inr rs
                \<and> length rs = length hits))"
  proof (cases "st' = 200")
    case False
    with resp res show ?thesis by auto
  next
    case st: True
    with res obtain data where b: "b' = Json data" and parse: "search_full_parse data = Inr rs"
      by auto
    from parse obtain qu re hits where
      "py_get data ''query'' (JObj []) = Inr qu" "py_get qu ''search'' (JArr []) = Inr re"
      "py_iter re = Inr hits" and me: "map_exn search_full_record hits = Inr rs"
      unfolding search_full_parse_def bind_exn_eq_Inr by blast
    with map_exn_length [OF me] resp st b show ?thesis by auto
  qed
  with h' show ?thesis by blast
qed

lemma get_all_pages_returns:
  assumes ret: "get_all_pages remote q l h = (Inr titles, h')"
  shows "h' = h @ [get_all_pages_params q l]
      \<and> (\<exists>st' b'. remote h (get_all_pages_params q l) = Response st' b'
           \<and> (st' \<noteq> 200 \<and> titles = []
              \<or> st' = 200 \<and> (\<exists>dat qu re hits. b' = Json dat
                \<and> py_get dat ''query'' (JObj []) = Inr qu
                \<and> py_get qu ''allpages'' (JArr []) = Inr re \<and> py_iter re = Inr hits
                \<and> map_exn (\<lambda>p. py_get p ''title'' JNull) hits = Inr titles
                \<and> length titles = length hits)))"
proof -
  from session_get_Inr [OF ret [unfolded get_all_pages_def]] obtain st' b' where
    h': "h' = h @ [get_all_pages_params q l]" and
    resp: "remote h (get_all_pages_params q l) = Response st' b'" and
    res: "if st' = 200 then \<exists>data. b' = Json data \<and> get_all_pages_parse data = Inr titles
          else titles = []"
    by blast
  have "\<exists>st' b'. remote h (get_all_pages_params q l) = Response st' b'
           \<and> (st' \<noteq> 200 \<and> titles = []
              \<or> st' = 200 \<and> (\<exists>dat qu re hits. b' = Json dat
                \<and> py_get dat ''query'' (JObj []) = Inr qu
                \<and> py_get qu ''allpages'' (JArr []) = Inr re \<and> py_iter re = Inr hits
                \<and> map_exn (\<lambda>p. py_get p ''title'' JNull) hits = Inr titles
                \<and> length titles = length hits))"
  proof (cases "st' = 200")
    case False
    with resp res show ?thesis by auto
  next
    case st: True
    with res obtain data where b: "b' = Json data" and parse: "get_all_pages_parse data = Inr titles"
      by auto
    from parse obtain qu re hits where
      "py_get data ''query'' (JObj []) = Inr qu" "py_get qu ''allpages'' (JArr []) = Inr re"
      "py_iter re = Inr hits" and me: "map_exn (\<lambda>p. py_get p ''title'' JNull) hits = Inr titles"
      unfolding get_all_pages_parse_def bind_exn_eq_Inr by blast
    with map_exn_length [OF me] resp st b show ?thesis by auto
  qed
  with h' show ?thesis by blast
qed

lemma get_categories_returns:
  assumes ret: "get_categories remote q h = (Inr names, h')"
  shows "h' = h @ [get_categories_params q]
      \<and> (\<exists>st' b'. remote h (get_categories_params q) = Response st' b'
           \<and> (st' \<noteq> 200 \<and> names = []
              \<or> st' = 200 \<and> (\<exists>dat qu pgs. b' = Json dat
                \<and> py_get dat ''query'' (JObj []) = Inr qu
                \<and> py_get qu ''pages'' (JObj []) = Inr (JObj pgs)
                \<and> (pgs = [] \<and> names = []
                   \<or> pgs \<noteq> [] \<and> (\<exists>re cats.
                         py_get (snd (hd pgs)) ''categories'' (JArr []) = Inr re
                       \<and> py_iter re = Inr cats
                       \<and> map_exn category_name cats = Inr names
                       \<and> length names = length cats)))))"
proof -
  from session_get_Inr [OF ret [unfolded get_categories_def]] obtain st' b' where
    h': "h' = h @ [get_categories_params q]" and
    resp: "remote h (get_categories_params q) = Response st' b'" and
    res: "if st' = 200 then \<exists>data. b' = Json data \<and> get_categories_parse data = Inr names
          else names = []"
    by blast
  have "\<exists>st' b'. remote h (get_categories_params q) = Response st' b'
           \<and> (st' \<noteq> 200 \<and> names = []
              \<or> st' = 200 \<and> (\<exists>dat qu pgs. b' = Json dat
                \<and> py_get dat ''query'' (JObj []) = Inr qu
                \<and> py_get qu ''pages'' (JObj []) = Inr (JObj pgs)
                \<and> (pgs = [] \<and> names = []
                   \<or> pgs \<noteq> [] \<and> (\<exists>re cats.
                         py_get (snd (hd pgs)) ''categories'' (JArr []) = Inr re
                       \<and> py_iter re = Inr cats
                       \<and> map_exn category_name cats = Inr names
                       \<and> length names = length cats))))"
  proof (cases "st' = 200")
    case False
    with resp res show ?thesis by auto
  next
    case st: True
    with res obtain data where b: "b' = Json data" and parse: "get_categories_parse data = Inr names"
      by auto
    from parse obtain qu pv pgs where
      qu: "py_get data ''query'' (JObj []) = Inr qu" and pv: "py_get qu ''pages'' (JObj []) = Inr pv"
      and it: "py_items pv = Inr pgs"
      and rest: "(case pgs of
         [] \<Rightarrow> Inr []
       | (page_id, page_data) # _ \<Rightarrow>
           bind_exn (py_get page_data ''categories'' (JArr [])) (\<lambda>categories.
           bind_exn (py_iter categories) (map_exn category_name))) = Inr names"
      unfolding get_categories_parse_def bind_exn_eq_Inr by blast
    from it have pvo: "pv = JObj pgs" by (simp add: py_items_Inr)
    show ?thesis
    proof (cases pgs)
      case Nil
      with rest have "names = []" by simp
      with resp st b qu pv pvo Nil show ?thesis by auto
    next
      case (Cons e more)
      with rest obtain re cats where "py_get (snd e) ''categories'' (JArr []) = Inr re"
        "py_iter re = Inr cats" and me: "map_exn category_name cats = Inr names"
        by (cases e) (auto simp: bind_exn_eq_Inr)
      with map_exn_length [OF me] resp st b qu pv pvo Cons show ?thesis by auto
    qed
  qed
  with h' show ?thesis by blast
qed

lemma get_page_extract_returns:
  assumes ret: "get_page_extract remote q h = (Inr pg, h')"
  shows "h' = h @ [get_page_extract_params q]
      \<and> (\<exists>st' b'. remote h (get_page_extract_params q) = Response st' b'
           \<and> (st' \<noteq> 200 \<and> pg = None
              \<or> st' = 200 \<and> (\<exists>dat qu pgs. b' = Json dat
                \<and> py_get dat ''query'' (JObj []) = Inr qu
                \<and> py_get qu ''pages'' (JObj []) = Inr (JObj pgs)
                \<and> ((pgs = [] \<or> fst (hd pgs) = ''-1'') \<and> pg = None
                   \<or> pgs \<noteq> [] \<and> fst (hd pgs) \<noteq> ''-1'' \<and> (\<exists>pd th.
                         snd (hd pgs) = JObj pd
                       \<and> py_get (JObj pd) ''thumbnail'' (JObj []) = Inr (JObj th)
                       \<and> pg = Some
                           \<lparr>page_title =
                              (case map_of pd ''title'' of Some v \<Rightarrow> v | None \<Rightarrow> JStr q),
                            page_extract =
                              (case map_of pd ''extract'' of Some v \<Rightarrow> v
                               | None \<Rightarrow> JStr no_description),
                            page_url =
                              (case map_of pd ''fullurl'' of Some v \<Rightarrow> v
                               | None \<Rightarrow> JStr (WIKI_BASE_URL @ ''/w/'' @ q)),
                            page_thumbnail =
                              (case map_of th ''source'' of Some v \<Rightarrow> v | None \<Rightarrow> JNull)\<rparr>)))))"
proof -
  from session_get_Inr [OF ret [unfolded get_page_extract_def]] obtain st' b' where
    h': "h' = h @ [get_page_extract_params q]" and
    resp: "remote h (get_page_extract_params q) = Response st' b'" and
    res: "if st' = 200 then \<exists>data. b' = Json data \<and> get_page_extract_parse q data = Inr pg
          else pg = None"
    by blast
  have "\<exists>st' b'. remote h (get_page_extract_params q) = Response st' b'
           \<and> (st' \<noteq> 200 \<and> pg = None
              \<or> st' = 200 \<and> (\<exists>dat qu pgs. b' = Json dat
                \<and> py_get dat ''query'' (JObj []) = Inr qu
                \<and> py_get qu ''pages'' (JObj []) = Inr (JObj pgs)
                \<and> ((pgs = [] \<or> fst (hd pgs) = ''-1'') \<and> pg = None
                   \<or> pgs \<noteq> [] \<and> fst (hd pgs) \<noteq> ''-1'' \<and> (\<exists>pd th.
                         snd (hd pgs) = JObj pd
                       \<and> py_get (JObj pd) ''thumbnail'' (JObj []) = Inr (JObj th)
                       \<and> pg = Some
                           \<lparr>page_title =
                              (case map_of pd ''title'' of Some v \<Rightarrow> v | None \<Rightarrow> JStr q),
                            page_extract =
                              (case map_of pd ''extract'' of Some v \<Rightarrow> v
                               | None \<Rightarrow> JStr no_description),
                            page_url =
                              (case map_of pd ''fullurl'' of Some v \<Rightarrow> v
                               | None \<Rightarrow> JStr (WIKI_BASE_URL @ ''/w/'' @ q)),
                            page_thumbnail =
                              (case map_of th ''source'' of Some v \<Rightarrow> v | None \<Rightarrow> JNull)\<rparr>))))"
  proof (cases "st' = 200")
    case False
    with resp res show ?thesis by auto
  next
    case st: True
    with res obtain data where b: "b' = Json data" and parse: "get_page_extract_parse q data = Inr pg"
      by auto
    from get_page_extract_parse_Inr [OF parse] obtain qu pgs where
      qu: "py_get data ''query'' (JObj []) = Inr qu" and
      pv: "py_get qu ''pages'' (JObj []) = Inr (JObj pgs)" and
      shape: "case pgs of
                 [] \<Rightarrow> pg = None
               | (pid, x) # rest \<Rightarrow>
                   if pid = ''-1'' then pg = None
                   else \<exists>pd p. x = JObj pd \<and> pg = Some p
                     \<and> page_title p = (case map_of pd ''title'' of Some v \<Rightarrow> v | None \<Rightarrow> JStr q)
                     \<and> page_extract p =
                         (case map_of pd ''extract'' of Some v \<Rightarrow> v | None \<Rightarrow> JStr no_description)
                     \<and> page_url p =
                         (case map_of pd ''fullurl'' of Some v \<Rightarrow> v
                          | None \<Rightarrow> JStr (WIKI_BASE_URL @ ''/w/'' @ q))
                     \<and> py_get (case map_of pd ''thumbnail'' of Some v \<Rightarrow> v | None \<Rightarrow> JObj [])
                           ''source'' JNull = Inr (page_thumbnail p)"
      by blast
    show ?thesis
    proof (cases pgs)
      case Nil
      with shape resp st b qu pv show ?thesis by auto
    next
      case (Cons e more)
      obtain pid x where e: "e = (pid, x)" by (cases e)
      show ?thesis
      proof (cases "pid = ''-1''")
        case True
        with shape Cons e resp st b qu pv show ?thesis by auto
      next
        case False
        with shape Cons e obtain pd p where x: "x = JObj pd" and p: "pg = Some p"
          and f1: "page_title p = (case map_of pd ''title'' of Some v \<Rightarrow> v | None \<Rightarrow> JStr q)"
          and f2: "page_extract p =
                         (case map_of pd ''extract'' of Some v \<Rightarrow> v | None \<Rightarrow> JStr no_description)"
          and f3: "page_url p =
                         (case map_of pd ''fullurl'' of Some v \<Rightarrow> v
                          | None \<Rightarrow> JStr (WIKI_BASE_URL @ ''/w/'' @ q))"
          and f4: "py_get (case map_of pd ''thumbnail'' of Some v \<Rightarrow> v | None \<Rightarrow> JObj [])
                           ''source'' JNull = Inr (page_thumbnail p)"
          by auto
        from f4 obtain th where th: "py_get (JObj pd) ''thumbnail'' (JObj []) = Inr (JObj th)"
          and f4': "page_thumbnail p = (case map_of th ''source'' of Some v \<Rightarrow> v | None \<Rightarrow> JNull)"
          by (auto simp: py_get_Inr)
        from f1 f2 f3 f4' have "p = \<lparr>page_title =
                              (case map_of pd ''title'' of Some v \<Rightarrow> v | None \<Rightarrow> JStr q),
                            page_extract =
                              (case map_of pd ''extract'' of Some v \<Rightarrow> v
                               | None \<Rightarrow> JStr no_description),
                            page_url =
                              (case map_of pd ''fullurl'' of Some v \<Rightarrow> v
                               | None \<Rightarrow> JStr (WIKI_BASE_URL @ ''/w/'' @ q)),
                            page_thumbnail =
                              (case map_of th ''source'' of Some v \<Rightarrow> v | None \<Rightarrow> JNull)\<rparr>"
          by (cases p) simp
        with False Cons e x p th resp st b qu pv show ?thesis by auto
      qed
    qed
  qed
  with h' show ?thesis by blast
qed

lemma search_returns_conv:
  assumes "h' = h @ [search_params q l]
      \<and> (\<exists>st' b'. remote h (search_params q l) = Response st' b'
           \<and> (st' \<noteq> 200 \<and> rs = []
              \<or> st' = 200 \<and> (\<exists>dat m. b' = Json dat \<and> py_len dat = Inr m
                \<and> (m < 4 \<and> rs = []
                   \<or> 4 \<le> m \<and> (\<exists>y1 y2 y3 tl dl ul.
                         py_index dat 1 = Inr y1 \<and> py_index dat 2 = Inr y2
                       \<and> py_index dat 3 = Inr y3 \<and> py_iter y1 = Inr tl
                       \<and> py_iter y2 = Inr dl \<and> py_iter y3 = Inr ul
                       \<and> rs = map (\<lambda>(t, d, u). \<lparr>title = t, description = d, url = u, score = None\<rparr>)
                                  (zip tl (zip dl ul)))))))"
  shows "search remote q l h = (Inr rs, h')"
  using assms by (auto simp: search_def session_get_def search_parse_def)

lemma search_full_returns_conv:
  assumes "h' = h @ [search_full_params q l]
      \<and> (\<exists>st' b'. remote h (search_full_params q l) = Response st' b'
           \<and> (st' \<noteq> 200 \<and> rs = []
              \<or> st' = 200 \<and> (\<exists>dat qu re hits. b' = Json dat
                \<and> py_get dat ''query'' (JObj []) = Inr qu
                \<and> py_get qu ''search'' (JArr []) = Inr re \<and> py_iter re = Inr hits
                \<and> map_exn search_full_record hits = Inr rs
                \<and> length rs = length hits)))"
  shows "search_full remote q l h = (Inr rs, h')"
  using assms by (auto simp: search_full_def session_get_def search_full_parse_def)

lemma get_all_pages_returns_conv:
  assumes "h' = h @ [get_all_pages_params q l]
      \<and> (\<exists>st' b'. remote h (get_all_pages_params q l) = Response st' b'
           \<and> (st' \<noteq> 200 \<and> titles = []
              \<or> st' = 200 \<and> (\<exists>dat qu re hits. b' = Json dat
                \<and> py_get dat ''query'' (JObj []) = Inr qu
                \<and> py_get qu ''allpages'' (JArr []) = Inr re \<and> py_iter re = Inr hits
                \<and> map_exn (\<lambda>p. py_get p ''title'' JNull) hits = Inr titles
                \<and> length titles = length hits)))"
  shows "get_all_pages remote q l h = (Inr titles, h')"
  using assms by (auto simp: get_all_pages_def session_get_def get_all_pages_parse_def)

lemma get_categories_returns_conv:
  assumes "h' = h @ [get_categories_params q]
      \<and> (\<exists>st' b'. remote h (get_categories_params q) = Response st' b'
           \<and> (st' \<noteq> 200 \<and> names = []
              \<or> st' = 200 \<and> (\<exists>dat qu pgs. b' = Json dat
                \<and> py_get dat ''query'' (JObj []) = Inr qu
                \<and> py_get qu ''pages'' (JObj []) = Inr (JObj pgs)
                \<and> (pgs = [] \<and> names = []
                   \<or> pgs \<noteq> [] \<and> (\<exists>re cats.
                         py_get (snd (hd pgs)) ''categories'' (JArr []) = Inr re
                       \<and> py_iter re = Inr cats
                       \<and> map_exn category_name cats = Inr names
                       \<and> length names = length cats)))))"
  shows "get_categories remote q h = (Inr names, h')"
  using assms by (auto simp: get_categories_def session_get_def get_categories_parse_def neq_Nil_conv split: list.splits)

lemma get_page_extract_returns_conv:
  assumes "h' = h @ [get_page_extract_params q]
      \<and> (\<exists>st' b'. remote h (get_page_extract_params q) = Response st' b'
           \<and> (st' \<noteq> 200 \<and> pg = None
              \<or> st' = 200 \<and> (\<exists>dat qu pgs. b' = Json dat
                \<and> py_get dat ''query'' (JObj []) = Inr qu
                \<and> py_get qu ''pages'' (JObj []) = Inr (JObj pgs)
                \<and> ((pgs = [] \<or> fst (hd pgs) = ''-1'') \<and> pg = None
                   \<or> pgs \<noteq> [] \<and> fst (hd pgs) \<noteq> ''-1'' \<and> (\<exists>pd th.
                         snd (hd pgs) = JObj pd
                       \<and> py_get (JObj pd) ''thumbnail'' (JObj []) = Inr (JObj th)
                       \<and> pg = Some
                           \<lparr>page_title =
                              (case map_of pd ''title'' of Some v \<Rightarrow> v | None \<Rightarrow> JStr q),
                            page_extract =
                              (case map_of pd ''extract'' of Some v \<Rightarrow> v
                               | None \<Rightarrow> JStr no_description),
                            page_url =
                              (case map_of pd ''fullurl'' of Some v \<Rightarrow> v
                               | None \<Rightarrow> JStr (WIKI_BASE_URL @ ''/w/'' @ q)),
                            page_thumbnail =
                              (case map_of th ''source'' of Some v \<Rightarrow> v | None \<Rightarrow> JNull)\<rparr>)))))"
  shows "get_page_extract remote q h = (Inr pg, h')"
proof -
  from assms obtain st' b' where h': "h' = h @ [get_page_extract_params q]"
    and resp: "remote h (get_page_extract_params q) = Response st' b'"
    and c: "st' \<noteq> 200 \<and> pg = None
              \<or> st' = 200 \<and> (\<exists>dat qu pgs. b' = Json dat
                \<and> py_get dat ''query'' (JObj []) = Inr qu
                \<and> py_get qu ''pages'' (JObj []) = Inr (JObj pgs)
                \<and> ((pgs = [] \<or> fst (hd pgs) = ''-1'') \<and> pg = None
                   \<or> pgs \<noteq> [] \<and> fst (hd pgs) \<noteq> ''-1'' \<and> (\<exists>pd th.
                         snd (hd pgs) = JObj pd
                       \<and> py_get (JObj pd) ''thumbnail'' (JObj []) = Inr (JObj th)
                       \<and> pg = Some
                           \<lparr>page_title =
                              (case map_of pd ''title'' of Some v \<Rightarrow> v | None \<Rightarrow> JStr q),
                            page_extract =
                              (case map_of pd ''extract'' of Some v \<Rightarrow> v
                               | None \<Rightarrow> JStr no_description),
                            page_url =
                              (case map_of pd ''fullurl'' of Some v \<Rightarrow> v
                               | None \<Rightarrow> JStr (WIKI_BASE_URL @ ''/w/'' @ q)),
                            page_thumbnail =
                              (case map_of th ''source'' of Some v \<Rightarrow> v | None \<Rightarrow> JNull)\<rparr>)))"
    by blast
  show ?thesis
  proof (cases "st' = 200")
    case False
    with c resp h' show ?thesis
      by (simp add: get_page_extract_def session_get_other_status)
  next
    case True
    with c obtain dat qu pgs where b': "b' = Json dat"
      and qu: "py_get dat ''query'' (JObj []) = Inr qu"
      and pv: "py_get qu ''pages'' (JObj []) = Inr (JObj pgs)"
      and d: "(pgs = [] \<or> fst (hd pgs) = ''-1'') \<and> pg = None
                   \<or> pgs \<noteq> [] \<and> fst (hd pgs) \<noteq> ''-1'' \<and> (\<exists>pd th.
                         snd (hd pgs) = JObj pd
                       \<and> py_get (JObj pd) ''thumbnail'' (JObj []) = Inr (JObj th)
                       \<and> pg = Some
                           \<lparr>page_title =
                              (case map_of pd ''title'' of Some v \<Rightarrow> v | None \<Rightarrow> JStr q),
                            page_extract =
                              (case map_of pd ''extract'' of Some v \<Rightarrow> v
                               | None \<Rightarrow> JStr no_description),
                            page_url =
                              (case map_of pd ''fullurl'' of Some v \<Rightarrow> v
                               | None \<Rightarrow> JStr (WIKI_BASE_URL @ ''/w/'' @ q)),
                            page_thumbnail =
                              (case map_of th ''source'' of Some v \<Rightarrow> v | None \<Rightarrow> JNull)\<rparr>)"
      by blast
    have "get_page_extract_parse q dat = Inr pg"
    proof (cases pgs)
      case Nil
      with d qu pv show ?thesis by (simp add: get_page_extract_parse_def)
    next
      case (Cons e more)
      obtain pid x where e: "e = (pid, x)" by (cases e)
      show ?thesis
      proof (cases "pid = ''-1''")
        case True
        with d Cons e qu pv show ?thesis by (simp add: get_page_extract_parse_def)
      next
        case False
        with d Cons e obtain pd th where x: "x = JObj pd"
          and th: "py_get (JObj pd) ''thumbnail'' (JObj []) = Inr (JObj th)"
          and pg: "pg = Some
                           \<lparr>page_title =
                              (case map_of pd ''title'' of Some v \<Rightarrow> v | None \<Rightarrow> JStr q),
                            page_extract =
                              (case map_of pd ''extract'' of Some v \<Rightarrow> v
                               | None \<Rightarrow> JStr no_description),
                            page_url =
                              (case map_of pd ''fullurl'' of Some v \<Rightarrow> v
                               | None \<Rightarrow> JStr (WIKI_BASE_URL @ ''/w/'' @ q)),
                            page_thumbnail =
                              (case map_of th ''source'' of Some v \<Rightarrow> v | None \<Rightarrow> JNull)\<rparr>"
          by auto
        from th have th': "(case map_of pd ''thumbnail'' of None \<Rightarrow> JObj [] | Some v \<Rightarrow> v) = JObj th"
          by simp
        show ?thesis
          unfolding get_page_extract_parse_def
          using False Cons e x qu pv pg th' by (simp split: option.splits)
      qed
    qed
    with True resp b' h' show ?thesis
      by (simp add: get_page_extract_def session_get_200)
  qed
qed

text \<open>
  C2, as the code has it. For each of \<^verbatim>\<open>search\<close>, \<^verbatim>\<open>search_full\<close>, \<^verbatim>\<open>get_all_pages\<close>,
  \<^verbatim>\<open>get_categories\<close> and \<^verbatim>\<open>get_page_extract\<close> (with \<^verbatim>\<open>None\<close> for the empty list):
  \<^item> on an answer whose status is not 200 the method returns the empty list, without
    raising;
  \<^item> on a 200 answer whose payload has the containers the method reads but no entry in
    them, it returns the empty list, without raising: for \<^verbatim>\<open>search\<close> a payload of fewer
    than four elements, or one whose element 1, 2 or 3 iterates to nothing; for
    \<^verbatim>\<open>search_full\<close> and \<^verbatim>\<open>get_all_pages\<close> an object whose \<^verbatim>\<open>query\<close> (an empty dict when
    missing) is an object whose \<^verbatim>\<open>search\<close> or \<^verbatim>\<open>allpages\<close> (an empty list when missing)
    iterates to nothing; for \<^verbatim>\<open>get_categories\<close> and \<^verbatim>\<open>get_page_extract\<close> an object whose
    \<^verbatim>\<open>query.pages\<close> is an empty dict, or whose first page has no categories, or has the
    id \<^verbatim>\<open>-1\<close>;
  \<^item> the method returns a value, having made one request, exactly when the answer has a
    status other than 200 (the value is then empty) or is a 200 answer with a JSON
    payload of the shape the method reads, and the value is then what that payload
    holds. In every other case (no answer, a body that is not JSON, a payload of
    another shape) the method does not return: it raises.
\<close>

theorem client_no_result:
  assumes "st \<noteq> 200"
  shows "(remote h (search_params q l) = Response st b \<longrightarrow>
      search remote q l h = (Inr [], h @ [search_params q l]))
   \<and> (remote h (search_params q l) = Response 200 (Json data) \<and> py_len data = Inr n \<and> n < 4
      \<longrightarrow> search remote q l h = (Inr [], h @ [search_params q l]))
   \<and> (remote h (search_params q l) = Response 200 (Json data) \<and> py_len data = Inr n \<and> 4 \<le> n
      \<and> py_index data 1 = Inr x1 \<and> py_index data 2 = Inr x2 \<and> py_index data 3 = Inr x3
      \<and> py_iter x1 = Inr ts \<and> py_iter x2 = Inr ds \<and> py_iter x3 = Inr us
      \<and> (ts = [] \<or> ds = [] \<or> us = [])
      \<longrightarrow> search remote q l h = (Inr [], h @ [search_params q l]))
   \<and> (search remote q l h = (Inr rs, h') \<longleftrightarrow>
      h' = h @ [search_params q l]
      \<and> (\<exists>st' b'. remote h (search_params q l) = Response st' b'
           \<and> (st' \<noteq> 200 \<and> rs = []
              \<or> st' = 200 \<and> (\<exists>dat m. b' = Json dat \<and> py_len dat = Inr m
                \<and> (m < 4 \<and> rs = []
                   \<or> 4 \<le> m \<and> (\<exists>y1 y2 y3 tl dl ul.
                         py_index dat 1 = Inr y1 \<and> py_index dat 2 = Inr y2
                       \<and> py_index dat 3 = Inr y3 \<and> py_iter y1 = Inr tl
                       \<and> py_iter y2 = Inr dl \<and> py_iter y3 = Inr ul
                       \<and> rs = map (\<lambda>(t, d, u). \<lparr>title = t, description = d, url = u, score = None\<rparr>)
                                  (zip tl (zip dl ul))))))))
   \<and> (remote h (search_full_params q l) = Response st b \<longrightarrow>
      search_full remote q l h = (Inr [], h @ [search_full_params q l]))
   \<and> (remote h (search_full_params q l) = Response 200 (Json data)
      \<and> py_get data ''query'' (JObj []) = Inr qv
      \<and> py_get qv ''search'' (JArr []) = Inr res \<and> py_iter res = Inr []
      \<longrightarrow> search_full remote q l h = (Inr [], h @ [search_full_params q l]))
   \<and> (search_full remote q l h = (Inr rs, h') \<longleftrightarrow>
      h' = h @ [search_full_params q l]
      \<and> (\<exists>st' b'. remote h (search_full_params q l) = Response st' b'
           \<and> (st' \<noteq> 200 \<and> rs = []
              \<or> st' = 200 \<and> (\<exists>dat qu re hits. b' = Json dat
                \<and> py_get dat ''query'' (JObj []) = Inr qu
                \<and> py_get qu ''search'' (JArr []) = Inr re \<and> py_iter re = Inr hits
                \<and> map_exn search_full_record hits = Inr rs
                \<and> length rs = length hits))))
   \<and> (remote h (get_all_pages_params q l) = Response st b \<longrightarrow>
      get_all_pages remote q l h = (Inr [], h @ [get_all_pages_params q l]))
   \<and> (remote h (get_all_pages_params q l) = Response 200 (Json data)
      \<and> py_get data ''query'' (JObj []) = Inr qv
      \<and> py_get qv ''allpages'' (JArr []) = Inr res \<and> py_iter res = Inr []
      \<longrightarrow> get_all_pages remote q l h = (Inr [], h @ [get_all_pages_params q l]))
   \<and> (get_all_pages remote q l h = (Inr titles, h') \<longleftrightarrow>
      h' = h @ [get_all_pages_params q l]
      \<and> (\<exists>st' b'. remote h (get_all_pages_params q l) = Response st' b'
           \<and> (st' \<noteq> 200 \<and> titles = []
              \<or> st' = 200 \<and> (\<exists>dat qu re hits. b' = Json dat
                \<and> py_get dat ''query'' (JObj []) = Inr qu
                \<and> py_get qu ''allpages'' (JArr []) = Inr re \<and> py_iter re = Inr hits
                \<and> map_exn (\<lambda>p. py_get p ''title'' JNull) hits = Inr titles
                \<and> length titles = length hits))))
   \<and> (remote h (get_categories_params q) = Response st b \<longrightarrow>
      get_categories remote q h = (Inr [], h @ [get_categories_params q]))
   \<and> (remote h (get_categories_params q) = Response 200 (Json data)
      \<and> py_get data ''query'' (JObj []) = Inr qv
      \<and> py_get qv ''pages'' (JObj []) = Inr (JObj pages)
      \<and> (pages = []
         \<or> py_get (snd (hd pages)) ''categories'' (JArr []) = Inr res \<and> py_iter res = Inr [])
      \<longrightarrow> get_categories remote q h = (Inr [], h @ [get_categories_params q]))
   \<and> (get_categories remote q h = (Inr names, h') \<longleftrightarrow>
      h' = h @ [get_categories_params q]
      \<and> (\<exists>st' b'. remote h (get_categories_params q) = Response st' b'
           \<and> (st' \<noteq> 200 \<and> names = []
              \<or> st' = 200 \<and> (\<exists>dat qu pgs. b' = Json dat
                \<and> py_get dat ''query'' (JObj []) = Inr qu
                \<and> py_get qu ''pages'' (JObj []) = Inr (JObj pgs)
                \<and> (pgs = [] \<and> names = []
                   \<or> pgs \<noteq> [] \<and> (\<exists>re cats.
                         py_get (snd (hd pgs)) ''categories'' (JArr []) = Inr re
                       \<and> py_iter re = Inr cats
                       \<and> map_exn category_name cats = Inr names
                       \<and> length names = length cats))))))
   \<and> (remote h (get_page_extract_params q) = Response st b \<longrightarrow>
      get_page_extract remote q h = (Inr None, h @ [get_page_extract_params q]))
   \<and> (remote h (get_page_extract_params q) = Response 200 (Json data)
      \<and> py_get data ''query'' (JObj []) = Inr qv
      \<and> py_get qv ''pages'' (JObj []) = Inr (JObj pages)
      \<and> (pages = [] \<or> fst (hd pages) = ''-1'')
      \<longrightarrow> get_page_extract remote q h = (Inr None, h @ [get_page_extract_params q]))
   \<and> (get_page_extract remote q h = (Inr pg, h') \<longleftrightarrow>
      h' = h @ [get_page_extract_params q]
      \<and> (\<exists>st' b'. remote h (get_page_extract_params q) = Response st' b'
           \<and> (st' \<noteq> 200 \<and> pg = None
              \<or> st' = 200 \<and> (\<exists>dat qu pgs. b' = Json dat
                \<and> py_get dat ''query'' (JObj []) = Inr qu
                \<and> py_get qu ''pages'' (JObj []) = Inr (JObj pgs)
                \<and> ((pgs = [] \<or> fst (hd pgs) = ''-1'') \<and> pg = None
                   \<or> pgs \<noteq> [] \<and> fst (hd pgs) \<noteq> ''-1'' \<and> (\<exists>pd th.
                         snd (hd pgs) = JObj pd
                       \<and> py_get (JObj pd) ''thumbnail'' (JObj []) = Inr (JObj th)
                       \<and> pg = Some
                           \<lparr>page_title =
                              (case map_of pd ''title'' of Some v \<Rightarrow> v | None \<Rightarrow> JStr q),
                            page_extract =
                              (case map_of pd ''extract'' of Some v \<Rightarrow> v
                               | None \<Rightarrow> JStr no_description),
                            page_url =
                              (case map_of pd ''fullurl'' of Some v \<Rightarrow> v
                               | None \<Rightarrow> JStr (WIKI_BASE_URL @ ''/w/'' @ q)),
                            page_thumbnail =
                              (case map_of th ''source'' of Some v \<Rightarrow> v | None \<Rightarrow> JNull)\<rparr>))))))"
proof -
  have c0: "remote h (search_params q l) = Response st b \<longrightarrow>
      search remote q l h = (Inr [], h @ [search_params q l])"
    using assms by (simp add: search_def session_get_other_status)
  have c1: "remote h (search_params q l) = Response 200 (Json data) \<and> py_len data = Inr n \<and> n < 4
      \<longrightarrow> search remote q l h = (Inr [], h @ [search_params q l])"
    by (simp add: search_def session_get_200 search_parse_def)
  have c2: "remote h (search_params q l) = Response 200 (Json data) \<and> py_len data = Inr n \<and> 4 \<le> n
      \<and> py_index data 1 = Inr x1 \<and> py_index data 2 = Inr x2 \<and> py_index data 3 = Inr x3
      \<and> py_iter x1 = Inr ts \<and> py_iter x2 = Inr ds \<and> py_iter x3 = Inr us
      \<and> (ts = [] \<or> ds = [] \<or> us = [])
      \<longrightarrow> search remote q l h = (Inr [], h @ [search_params q l])"
    by (auto simp: search_def session_get_200 search_parse_def)
  have c3: "search remote q l h = (Inr rs, h') \<longleftrightarrow>
      h' = h @ [search_params q l]
      \<and> (\<exists>st' b'. remote h (search_params q l) = Response st' b'
           \<and> (st' \<noteq> 200 \<and> rs = []
              \<or> st' = 200 \<and> (\<exists>dat m. b' = Json dat \<and> py_len dat = Inr m
                \<and> (m < 4 \<and> rs = []
                   \<or> 4 \<le> m \<and> (\<exists>y1 y2 y3 tl dl ul.
                         py_index dat 1 = Inr y1 \<and> py_index dat 2 = Inr y2
                       \<and> py_index dat 3 = Inr y3 \<and> py_iter y1 = Inr tl
                       \<and> py_iter y2 = Inr dl \<and> py_iter y3 = Inr ul
                       \<and> rs = map (\<lambda>(t, d, u). \<lparr>title = t, description = d, url = u, score = None\<rparr>)
                                  (zip tl (zip dl ul)))))))"
    by (rule iffI) (rule search_returns, assumption, rule search_returns_conv, assumption)
  have c4: "remote h (search_full_params q l) = Response st b \<longrightarrow>
      search_full remote q l h = (Inr [], h @ [search_full_params q l])"
    using assms by (simp add: search_full_def session_get_other_status)
  have c5: "remote h (search_full_params q l) = Response 200 (Json data)
      \<and> py_get data ''query'' (JObj []) = Inr qv
      \<and> py_get qv ''search'' (JArr []) = Inr res \<and> py_iter res = Inr []
      \<longrightarrow> search_full remote q l h = (Inr [], h @ [search_full_params q l])"
    by (simp add: search_full_def session_get_200 search_full_parse_def)
  have c6: "search_full remote q l h = (Inr rs, h') \<longleftrightarrow>
      h' = h @ [search_full_params q l]
      \<and> (\<exists>st' b'. remote h (search_full_params q l) = Response st' b'
           \<and> (st' \<noteq> 200 \<and> rs = []
              \<or> st' = 200 \<and> (\<exists>dat qu re hits. b' = Json dat
                \<and> py_get dat ''query'' (JObj []) = Inr qu
                \<and> py_get qu ''search'' (JArr []) = Inr re \<and> py_iter re = Inr hits
                \<and> map_exn search_full_record hits = Inr rs
                \<and> length rs = length hits)))"
    by (rule iffI) (rule search_full_returns, assumption, rule search_full_returns_conv, assumption)
  have c7: "remote h (get_all_pages_params q l) = Response st b \<longrightarrow>
      get_all_pages remote q l h = (Inr [], h @ [get_all_pages_params q l])"
    using assms by (simp add: get_all_pages_def session_get_other_status)
  have c8: "remote h (get_all_pages_params q l) = Response 200 (Json data)
      \<and> py_get data ''query'' (JObj []) = Inr qv
      \<and> py_get qv ''allpages'' (JArr []) = Inr res \<and> py_iter res = Inr []
      \<longrightarrow> get_all_pages remote q l h = (Inr [], h @ [get_all_pages_params q l])"
    by (simp add: get_all_pages_def session_get_200 get_all_pages_parse_def)
  have c9: "get_all_pages remote q l h = (Inr titles, h') \<longleftrightarrow>
      h' = h @ [get_all_pages_params q l]
      \<and> (\<exists>st' b'. remote h (get_all_pages_params q l) = Response st' b'
           \<and> (st' \<noteq> 200 \<and> titles = []
              \<or> st' = 200 \<and> (\<exists>dat qu re hits. b' = Json dat
                \<and> py_get dat ''query'' (JObj []) = Inr qu
                \<and> py_get qu ''allpages'' (JArr []) = Inr re \<and> py_iter re = Inr hits
                \<and> map_exn (\<lambda>p. py_get p ''title'' JNull) hits = Inr titles
                \<and> length titles = length hits)))"
    by (rule iffI) (rule get_all_pages_returns, assumption, rule get_all_pages_returns_conv, assumption)
  have c10: "remote h (get_categories_params q) = Response st b \<longrightarrow>
      get_categories remote q h = (Inr [], h @ [get_categories_params q])"
    using assms by (simp add: get_categories_def session_get_other_status)
  have c11: "remote h (get_categories_params q) = Response 200 (Json data)
      \<and> py_get data ''query'' (JObj []) = Inr qv
      \<and> py_get qv ''pages'' (JObj []) = Inr (JObj pages)
      \<and> (pages = []
         \<or> py_get (snd (hd pages)) ''categories'' (JArr []) = Inr res \<and> py_iter res = Inr [])
      \<longrightarrow> get_categories remote q h = (Inr [], h @ [get_categories_params q])"
    by (cases pages) (auto simp: get_categories_def session_get_200 get_categories_parse_def)
  have c12: "get_categories remote q h = (Inr names, h') \<longleftrightarrow>
      h' = h @ [get_categories_params q]
      \<and> (\<exists>st' b'. remote h (get_categories_params q) = Response st' b'
           \<and> (st' \<noteq> 200 \<and> names = []
              \<or> st' = 200 \<and> (\<exists>dat qu pgs. b' = Json dat
                \<and> py_get dat ''query'' (JObj []) = Inr qu
                \<and> py_get qu ''pages'' (JObj []) = Inr (JObj pgs)
                \<and> (pgs = [] \<and> names = []
                   \<or> pgs \<noteq> [] \<and> (\<exists>re cats.
                         py_get (snd (hd pgs)) ''categories'' (JArr []) = Inr re
                       \<and> py_iter re = Inr cats
                       \<and> map_exn category_name cats = Inr names
                       \<and> length names = length cats)))))"
    by (rule iffI) (rule get_categories_returns, assumption, rule get_categories_returns_conv, assumption)
  have c13: "remote h (get_page_extract_params q) = Response st b \<longrightarrow>
      get_page_extract remote q h = (Inr None, h @ [get_page_extract_params q])"
    using assms by (simp add: get_page_extract_def session_get_other_status)
  have c14: "remote h (get_page_extract_params q) = Response 200 (Json data)
      \<and> py_get data ''query'' (JObj []) = Inr qv
      \<and> py_get qv ''pages'' (JObj []) = Inr (JObj pages)
      \<and> (pages = [] \<or> fst (hd pages) = ''-1'')
      \<longrightarrow> get_page_extract remote q h = (Inr None, h @ [get_page_extract_params q])"
    by (cases pages) (auto simp: get_page_extract_def session_get_200 get_page_extract_parse_def)
  have c15: "get_page_extract remote q h = (Inr pg, h') \<longleftrightarrow>
      h' = h @ [get_page_extract_params q]
      \<and> (\<exists>st' b'. remote h (get_page_extract_params q) = Response st' b'
           \<and> (st' \<noteq> 200 \<and> pg = None
              \<or> st' = 200 \<and> (\<exists>dat qu pgs. b' = Json dat
                \<and> py_get dat ''query'' (JObj []) = Inr qu
                \<and> py_get qu ''pages'' (JObj []) = Inr (JObj pgs)
                \<and> ((pgs = [] \<or> fst (hd pgs) = ''-1'') \<and> pg = None
                   \<or> pgs \<noteq> [] \<and> fst (hd pgs) \<noteq> ''-1'' \<and> (\<exists>pd th.
                         snd (hd pgs) = JObj pd
                       \<and> py_get (JObj pd) ''thumbnail'' (JObj []) = Inr (JObj th)
                       \<and> pg = Some
                           \<lparr>page_title =
                              (case map_of pd ''title'' of Some v \<Rightarrow> v | None \<Rightarrow> JStr q),
                            page_extract =
                              (case map_of pd ''extract'' of Some v \<Rightarrow> v
                               | None \<Rightarrow> JStr no_description),
                            page_url =
                              (case map_of pd ''fullurl'' of Some v \<Rightarrow> v
                               | None \<Rightarrow> JStr (WIKI_BASE_URL @ ''/w/'' @ q)),
                            page_thumbnail =
                              (case map_of th ''source'' of Some v \<Rightarrow> v | None \<Rightarrow> JNull)\<rparr>)))))"
    by (rule iffI) (rule get_page_extract_returns, assumption, rule get_page_extract_returns_conv, assumption)
  show ?thesis
    by (rule conjI [OF c0 conjI [OF c1 conjI [OF c2 conjI [OF c3 conjI [OF c4 conjI [OF c5 conjI [OF c6 conjI [OF c7 conjI [OF c8 conjI [OF c9 conjI [OF c10 conjI [OF c11 conjI [OF c12 conjI [OF c13 conjI [OF c14 c15]]]]]]]]]]]]]]])
qed

text \<open>
  The theorem at a wiki that answers 503, at one that answers with error objects, at a
  search answered with empty lists, and at answers that hold hits, titles, categories
  and a page.
\<close>

theorem client_no_result_witness:
  "search down_wiki ''kweebec'' 10 [] = (Inr [], [search_params ''kweebec'' 10])
   \<and> search_full down_wiki ''kweebec'' 10 [] = (Inr [], [search_full_params ''kweebec'' 10])
   \<and> get_all_pages down_wiki ''kweebec'' 10 [] = (Inr [], [get_all_pages_params ''kweebec'' 10])
   \<and> get_categories down_wiki ''kweebec'' [] = (Inr [], [get_categories_params ''kweebec''])
   \<and> get_page_extract down_wiki ''kweebec'' [] = (Inr None, [get_page_extract_params ''kweebec''])
   \<and> search error_wiki ''kweebec'' 10 [] = (Inr [], [search_params ''kweebec'' 10])
   \<and> search kweebek_wiki ''Kweebek'' 10 [] = (Inr [], [search_params ''Kweebek'' 10])
   \<and> search_full error_wiki ''kweebec'' 10 [] = (Inr [], [search_full_params ''kweebec'' 10])
   \<and> get_all_pages error_wiki ''kweebec'' 10 [] = (Inr [], [get_all_pages_params ''kweebec'' 10])
   \<and> get_categories error_wiki ''kweebec'' [] = (Inr [], [get_categories_params ''kweebec''])
   \<and> get_page_extract error_wiki ''kweebec'' [] = (Inr None, [get_page_extract_params ''kweebec''])
   \<and> search blo_wiki ''blo'' 10 [] =
     (Inr [\<lparr>title = JStr ''Block'', description = JStr [],
            url = JStr ''https://hytalewiki.org/w/Block'', score = None\<rparr>,
           \<lparr>title = JStr ''Blowgun'', description = JStr [],
            url = JStr ''https://hytalewiki.org/w/Blowgun'', score = None\<rparr>,
           \<lparr>title = JStr ''Bloom'', description = JStr [],
            url = JStr ''https://hytalewiki.org/w/Bloom'', score = None\<rparr>],
      [search_params ''blo'' 10])
   \<and> search_full trork_wiki ''trork camp'' 10 [] =
     (Inr [\<lparr>title = JStr ''Trork'', description = JStr ''A hostile race'',
            url = JStr ''https://hytalewiki.org/w/Trork'', score = None\<rparr>,
           \<lparr>title = JStr ''Trork Camp'', description = JStr ''Trork outpost'',
            url = JStr ''https://hytalewiki.org/w/Trork_Camp'', score = None\<rparr>],
      [search_full_params ''trork camp'' 10])
   \<and> get_all_pages kweebek_wiki ''Kweebek'' 50 [] =
     (Inr [JStr ''Kweebec'', JStr ''Kweebec village''], [get_all_pages_params ''Kweebek'' 50])
   \<and> get_categories kweebek_wiki ''Kweebec'' [] =
     (Inr [''Races''], [get_categories_params ''Kweebec''])
   \<and> get_page_extract kweebek_wiki ''Kweebec'' [] =
     (Inr (Some \<lparr>page_title = JStr ''Kweebec'',
          page_extract = JStr ''Kweebecs are a race of tree people.'',
          page_url = JStr ''https://hytalewiki.org/w/Kweebec'', page_thumbnail = JNull\<rparr>),
      [get_page_extract_params ''Kweebec''])"
proof -
  have ne: "(503::int) \<noteq> 200" by simp
  from client_no_result [OF ne, where remote = down_wiki and h = "[]" and q = "''kweebec''" and l = 10 and b = NotJson,
      THEN conjunct1]
  have d1: "search down_wiki ''kweebec'' 10 [] = (Inr [], [search_params ''kweebec'' 10])"
    by (simp add: down_wiki_def)
  from client_no_result [OF ne, where remote = down_wiki and h = "[]" and q = "''kweebec''" and l = 10 and b = NotJson,
      THEN conjunct2, THEN conjunct2, THEN conjunct2, THEN conjunct2, THEN conjunct1]
  have d2: "search_full down_wiki ''kweebec'' 10 [] = (Inr [], [search_full_params ''kweebec'' 10])"
    by (simp add: down_wiki_def)
  from client_no_result [OF ne, where remote = down_wiki and h = "[]" and q = "''kweebec''" and l = 10 and b = NotJson,
      THEN conjunct2, THEN conjunct2, THEN conjunct2, THEN conjunct2, THEN conjunct2, THEN conjunct2, THEN conjunct2, THEN conjunct1]
  have d3: "get_all_pages down_wiki ''kweebec'' 10 [] = (Inr [], [get_all_pages_params ''kweebec'' 10])"
    by (simp add: down_wiki_def)
  from client_no_result [OF ne, where remote = down_wiki and h = "[]" and q = "''kweebec''" and l = 10 and b = NotJson,
      THEN conjunct2, THEN conjunct2, THEN conjunct2, THEN conjunct2, THEN conjunct2, THEN conjunct2, THEN conjunct2, THEN conjunct2, THEN conjunct2, THEN conjunct2, THEN conjunct1]
  have d4: "get_categories down_wiki ''kweebec'' [] = (Inr [], [get_categories_params ''kweebec''])"
    by (simp add: down_wiki_def)
  from client_no_result [OF ne, where remote = down_wiki and h = "[]" and q = "''kweebec''" and l = 10 and b = NotJson,
      THEN conjunct2, THEN conjunct2, THEN conjunct2, THEN conjunct2, THEN conjunct2, THEN conjunct2, THEN conjunct2, THEN conjunct2, THEN conjunct2, THEN conjunct2, THEN conjunct2, THEN conjunct2, THEN conjunct2, THEN conjunct1]
  have d5: "get_page_extract down_wiki ''kweebec'' [] = (Inr None, [get_page_extract_params ''kweebec''])"
    by (simp add: down_wiki_def)
  from client_no_result [OF ne, where remote = error_wiki and h = "[]" and q = "''kweebec''" and l = 10 and data = "JObj [(''error'', JObj [(''code'', JStr ''readapidenied'')])]" and n = 1 and qv = "JObj []" and res = "JArr []" and pages = "[]",
      THEN conjunct2, THEN conjunct1]
  have e1: "search error_wiki ''kweebec'' 10 [] = (Inr [], [search_params ''kweebec'' 10])"
    by (simp add: error_wiki_def)
  from client_no_result [OF ne, where remote = error_wiki and h = "[]" and q = "''kweebec''" and l = 10 and data = "JObj [(''error'', JObj [(''code'', JStr ''readapidenied'')])]" and n = 1 and qv = "JObj []" and res = "JArr []" and pages = "[]",
      THEN conjunct2, THEN conjunct2, THEN conjunct2, THEN conjunct2, THEN conjunct2, THEN conjunct1]
  have e2: "search_full error_wiki ''kweebec'' 10 [] = (Inr [], [search_full_params ''kweebec'' 10])"
    by (simp add: error_wiki_def)
  from client_no_result [OF ne, where remote = error_wiki and h = "[]" and q = "''kweebec''" and l = 10 and data = "JObj [(''error'', JObj [(''code'', JStr ''readapidenied'')])]" and n = 1 and qv = "JObj []" and res = "JArr []" and pages = "[]",
      THEN conjunct2, THEN conjunct2, THEN conjunct2, THEN conjunct2, THEN conjunct2, THEN conjunct2, THEN conjunct2, THEN conjunct2, THEN conjunct1]
  have e3: "get_all_pages error_wiki ''kweebec'' 10 [] = (Inr [], [get_all_pages_params ''kweebec'' 10])"
    by (simp add: error_wiki_def)
  from client_no_result [OF ne, where remote = error_wiki and h = "[]" and q = "''kweebec''" and l = 10 and data = "JObj [(''error'', JObj [(''code'', JStr ''readapidenied'')])]" and n = 1 and qv = "JObj []" and res = "JArr []" and pages = "[]",
      THEN conjunct2, THEN conjunct2, THEN conjunct2, THEN conjunct2, THEN conjunct2, THEN conjunct2, THEN conjunct2, THEN conjunct2, THEN conjunct2, THEN conjunct2, THEN conjunct2, THEN conjunct1]
  have e4: "get_categories error_wiki ''kweebec'' [] = (Inr [], [get_categories_params ''kweebec''])"
    by (simp add: error_wiki_def)
  from client_no_result [OF ne, where remote = error_wiki and h = "[]" and q = "''kweebec''" and l = 10 and data = "JObj [(''error'', JObj [(''code'', JStr ''readapidenied'')])]" and n = 1 and qv = "JObj []" and res = "JArr []" and pages = "[]",
      THEN conjunct2, THEN conjunct2, THEN conjunct2, THEN conjunct2, THEN conjunct2, THEN conjunct2, THEN conjunct2, THEN conjunct2, THEN conjunct2, THEN conjunct2, THEN conjunct2, THEN conjunct2, THEN conjunct2, THEN conjunct2, THEN conjunct1]
  have e5: "get_page_extract error_wiki ''kweebec'' [] = (Inr None, [get_page_extract_params ''kweebec''])"
    by (simp add: error_wiki_def)
  from client_no_result [OF ne, where remote = kweebek_wiki and h = "[]" and q = "''Kweebek''" and l = 10 and data = "JArr [JStr ''Kweebek'', JArr [], JArr [], JArr []]" and n = 4 and ?x1.0 = "JArr []" and ?x2.0 = "JArr []" and ?x3.0 = "JArr []" and ts = "[]" and ds = "[]" and us = "[]",
      THEN conjunct2, THEN conjunct2, THEN conjunct1]
  have k1: "search kweebek_wiki ''Kweebek'' 10 [] = (Inr [], [search_params ''Kweebek'' 10])"
    by (simp add: kweebek_wiki_def get_page_extract_params_def search_params_def)
  from client_no_result [OF ne, where remote = blo_wiki and h = "[]" and q = "''blo''" and l = 10 and rs = "[\<lparr>title = JStr ''Block'', description = JStr [],
            url = JStr ''https://hytalewiki.org/w/Block'', score = None\<rparr>,
           \<lparr>title = JStr ''Blowgun'', description = JStr [],
            url = JStr ''https://hytalewiki.org/w/Blowgun'', score = None\<rparr>,
           \<lparr>title = JStr ''Bloom'', description = JStr [],
            url = JStr ''https://hytalewiki.org/w/Bloom'', score = None\<rparr>]" and h' = "[search_params ''blo'' 10]",
      THEN conjunct2, THEN conjunct2, THEN conjunct2, THEN conjunct1]
  have b1: "search blo_wiki ''blo'' 10 [] =
     (Inr [\<lparr>title = JStr ''Block'', description = JStr [],
            url = JStr ''https://hytalewiki.org/w/Block'', score = None\<rparr>,
           \<lparr>title = JStr ''Blowgun'', description = JStr [],
            url = JStr ''https://hytalewiki.org/w/Blowgun'', score = None\<rparr>,
           \<lparr>title = JStr ''Bloom'', description = JStr [],
            url = JStr ''https://hytalewiki.org/w/Bloom'', score = None\<rparr>],
      [search_params ''blo'' 10])"
    by (simp add: blo_wiki_def)
  from client_no_result [OF ne, where remote = trork_wiki and h = "[]" and q = "''trork camp''" and l = 10 and rs = "[\<lparr>title = JStr ''Trork'', description = JStr ''A hostile race'',
            url = JStr ''https://hytalewiki.org/w/Trork'', score = None\<rparr>,
           \<lparr>title = JStr ''Trork Camp'', description = JStr ''Trork outpost'',
            url = JStr ''https://hytalewiki.org/w/Trork_Camp'', score = None\<rparr>]" and h' = "[search_full_params ''trork camp'' 10]",
      THEN conjunct2, THEN conjunct2, THEN conjunct2, THEN conjunct2, THEN conjunct2, THEN conjunct2, THEN conjunct1]
  have b2: "search_full trork_wiki ''trork camp'' 10 [] =
     (Inr [\<lparr>title = JStr ''Trork'', description = JStr ''A hostile race'',
            url = JStr ''https://hytalewiki.org/w/Trork'', score = None\<rparr>,
           \<lparr>title = JStr ''Trork Camp'', description = JStr ''Trork outpost'',
            url = JStr ''https://hytalewiki.org/w/Trork_Camp'', score = None\<rparr>],
      [search_full_params ''trork camp'' 10])"
    by (simp add: trork_wiki_def search_full_record_def searchmatch_open_def replace.simps WIKI_BASE_URL_def)
  from client_no_result [OF ne, where remote = kweebek_wiki and h = "[]" and q = "''Kweebek''" and l = 50 and titles = "[JStr ''Kweebec'', JStr ''Kweebec village'']" and h' = "[get_all_pages_params ''Kweebek'' 50]",
      THEN conjunct2, THEN conjunct2, THEN conjunct2, THEN conjunct2, THEN conjunct2, THEN conjunct2, THEN conjunct2, THEN conjunct2, THEN conjunct2, THEN conjunct1]
  have b3: "get_all_pages kweebek_wiki ''Kweebek'' 50 [] =
     (Inr [JStr ''Kweebec'', JStr ''Kweebec village''], [get_all_pages_params ''Kweebek'' 50])"
    by (simp add: kweebek_wiki_def get_page_extract_params_def search_params_def get_all_pages_params_def)
  from client_no_result [OF ne, where remote = kweebek_wiki and h = "[]" and q = "''Kweebec''" and names = "[''Races'']" and h' = "[get_categories_params ''Kweebec'']",
      THEN conjunct2, THEN conjunct2, THEN conjunct2, THEN conjunct2, THEN conjunct2, THEN conjunct2, THEN conjunct2, THEN conjunct2, THEN conjunct2, THEN conjunct2, THEN conjunct2, THEN conjunct2, THEN conjunct1]
  have b4: "get_categories kweebek_wiki ''Kweebec'' [] =
     (Inr [''Races''], [get_categories_params ''Kweebec''])"
    by (simp add: kweebek_wiki_def get_page_extract_params_def search_params_def get_all_pages_params_def get_categories_params_def category_name_def replace.simps)
  from client_no_result [OF ne, where remote = kweebek_wiki and h = "[]" and q = "''Kweebec''" and pg = "Some \<lparr>page_title = JStr ''Kweebec'',
          page_extract = JStr ''Kweebecs are a race of tree people.'',
          page_url = JStr ''https://hytalewiki.org/w/Kweebec'', page_thumbnail = JNull\<rparr>" and h' = "[get_page_extract_params ''Kweebec'']",
      THEN conjunct2, THEN conjunct2, THEN conjunct2, THEN conjunct2, THEN conjunct2, THEN conjunct2, THEN conjunct2, THEN conjunct2, THEN conjunct2, THEN conjunct2, THEN conjunct2, THEN conjunct2, THEN conjunct2, THEN conjunct2, THEN conjunct2]
  have b5: "get_page_extract kweebek_wiki ''Kweebec'' [] =
     (Inr (Some \<lparr>page_title = JStr ''Kweebec'',
          page_extract = JStr ''Kweebecs are a race of tree people.'',
          page_url = JStr ''https://hytalewiki.org/w/Kweebec'', page_thumbnail = JNull\<rparr>),
      [get_page_extract_params ''Kweebec''])"
    by (simp add: kweebek_wiki_def get_page_extract_params_def search_params_def get_all_pages_params_def kweebec_page_def WIKI_BASE_URL_def)
  show ?thesis
    by (rule conjI [OF d1 conjI [OF d2 conjI [OF d3 conjI [OF d4 conjI [OF d5 conjI [OF e1 conjI [OF k1 conjI [OF e2 conjI [OF e3 conjI [OF e4 conjI [OF e5 conjI [OF b1 conjI [OF b2 conjI [OF b3 conjI [OF b4 b5]]]]]]]]]]]]]]])
qed

text \<open>
  The claim C2 itself fails: nothing in the client catches an exception or checks the
  type of what it reads. Where the value under \<^verbatim>\<open>query\<close> is an array,
  \<^verbatim>\<open>data.get("query", {}).get("search", [])\<close> calls \<^verbatim>\<open>get\<close> on a list, and
  \<^verbatim>\<open>search_full\<close> raises an \<^verbatim>\<open>AttributeError\<close>.
\<close>

theorem search_full_raises:
  "search_full empty_query_wiki ''kweebec'' 10 [] =
     (Inl AttributeError, [search_full_params ''kweebec'' 10])"
  by (simp add: search_full_def session_get_def empty_query_wiki_def search_full_parse_def)

text \<open>
  C7, as the code has it. Whenever \<^verbatim>\<open>get_page_extract\<close> returns, it returns \<^verbatim>\<open>None\<close>
  exactly when the status of the answer is not 200, or the payload has no entry under
  \<^verbatim>\<open>query.pages\<close>, or the first entry there has the id \<^verbatim>\<open>-1\<close>. Otherwise the first entry
  is an object with another id and the record returned has that entry's \<^verbatim>\<open>title\<close> (the
  requested title if it has none), its \<^verbatim>\<open>extract\<close> and \<^verbatim>\<open>fullurl\<close> (or their defaults)
  and the \<^verbatim>\<open>source\<close> of its \<^verbatim>\<open>thumbnail\<close> object (\<^verbatim>\<open>None\<close> without one).
\<close>

theorem get_page_extract_result:
  assumes ret: "get_page_extract remote t h = (Inr r, h')"
  shows "(r = None \<longleftrightarrow>
           (\<exists>st b. remote h (get_page_extract_params t) = Response st b \<and>
              (st \<noteq> 200 \<or>
               (\<exists>data q pages. b = Json data
                  \<and> py_get data ''query'' (JObj []) = Inr q
                  \<and> py_get q ''pages'' (JObj []) = Inr (JObj pages)
                  \<and> (pages = [] \<or> fst (hd pages) = ''-1'')))))
       \<and> (\<forall>p. r = Some p \<longrightarrow>
             (\<exists>data q pid pd rest.
                remote h (get_page_extract_params t) = Response 200 (Json data)
              \<and> py_get data ''query'' (JObj []) = Inr q
              \<and> py_get q ''pages'' (JObj []) = Inr (JObj ((pid, JObj pd) # rest))
              \<and> pid \<noteq> ''-1''
              \<and> page_title p = (case map_of pd ''title'' of Some v \<Rightarrow> v | None \<Rightarrow> JStr t)
              \<and> page_extract p =
                  (case map_of pd ''extract'' of Some v \<Rightarrow> v | None \<Rightarrow> JStr no_description)
              \<and> page_url p =
                  (case map_of pd ''fullurl'' of Some v \<Rightarrow> v
                   | None \<Rightarrow> JStr (WIKI_BASE_URL @ ''/w/'' @ t))
              \<and> py_get (case map_of pd ''thumbnail'' of Some v \<Rightarrow> v | None \<Rightarrow> JObj [])
                    ''source'' JNull = Inr (page_thumbnail p)))"
proof -
  from ret obtain st b where resp: "remote h (get_page_extract_params t) = Response st b"
    and res: "if st = 200 then \<exists>data. b = Json data \<and> get_page_extract_parse t data = Inr r
              else r = None"
    unfolding get_page_extract_def by (blast dest: session_get_Inr)
  show ?thesis
  proof (cases "st = 200")
    case False
    with resp res show ?thesis by auto
  next
    case True
    with res obtain data where b: "b = Json data"
      and parse: "get_page_extract_parse t data = Inr r" by auto
    from get_page_extract_parse_Inr [OF parse] obtain q pages where
      q: "py_get data ''query'' (JObj []) = Inr q" and
      pages: "py_get q ''pages'' (JObj []) = Inr (JObj pages)" and
      shape: "case pages of
                 [] \<Rightarrow> r = None
               | (pid, x) # rest \<Rightarrow>
                   if pid = ''-1'' then r = None
                   else \<exists>pd p. x = JObj pd \<and> r = Some p
                     \<and> page_title p = (case map_of pd ''title'' of Some v \<Rightarrow> v | None \<Rightarrow> JStr t)
                     \<and> page_extract p =
                         (case map_of pd ''extract'' of Some v \<Rightarrow> v | None \<Rightarrow> JStr no_description)
                     \<and> page_url p =
                         (case map_of pd ''fullurl'' of Some v \<Rightarrow> v
                          | None \<Rightarrow> JStr (WIKI_BASE_URL @ ''/w/'' @ t))
                     \<and> py_get (case map_of pd ''thumbnail'' of Some v \<Rightarrow> v | None \<Rightarrow> JObj [])
                           ''source'' JNull = Inr (page_thumbnail p)"
      by blast
    show ?thesis
    proof (cases pages)
      case Nil
      with shape resp True b q pages show ?thesis by auto
    next
      case (Cons e rest)
      obtain pid x where e: "e = (pid, x)" by (cases e)
      show ?thesis
      proof (cases "pid = ''-1''")
        case True
        with shape Cons e resp \<open>st = 200\<close> b q pages show ?thesis by auto
      next
        case False
        with shape Cons e obtain pd p where "x = JObj pd" "r = Some p"
          and "page_title p = (case map_of pd ''title'' of Some v \<Rightarrow> v | None \<Rightarrow> JStr t)"
          and "page_extract p =
                         (case map_of pd ''extract'' of Some v \<Rightarrow> v | None \<Rightarrow> JStr no_description)"
          and "page_url p =
                         (case map_of pd ''fullurl'' of Some v \<Rightarrow> v
                          | None \<Rightarrow> JStr (WIKI_BASE_URL @ ''/w/'' @ t))"
          and "py_get (case map_of pd ''thumbnail'' of Some v \<Rightarrow> v | None \<Rightarrow> JObj [])
                           ''source'' JNull = Inr (page_thumbnail p)"
          by auto
        with False Cons e resp \<open>st = 200\<close> b q pages show ?thesis by auto
      qed
    qed
  qed
qed

text \<open>The theorem at the missing page \<^verbatim>\<open>Kweebek\<close>, whose entry has the id \<^verbatim>\<open>-1\<close>.\<close>

theorem get_page_extract_result_witness:
  "get_page_extract kweebek_wiki ''Kweebek'' [] = (Inr None, [get_page_extract_params ''Kweebek''])
   \<and> (\<exists>st b. kweebek_wiki [] (get_page_extract_params ''Kweebek'') = Response st b \<and>
              (st \<noteq> 200 \<or>
               (\<exists>data q pages. b = Json data
                  \<and> py_get data ''query'' (JObj []) = Inr q
                  \<and> py_get q ''pages'' (JObj []) = Inr (JObj pages)
                  \<and> (pages = [] \<or> fst (hd pages) = ''-1''))))"
proof -
  have run: "get_page_extract kweebek_wiki ''Kweebek'' [] =
      (Inr None, [get_page_extract_params ''Kweebek''])"
    by (simp add: get_page_extract_def session_get_def kweebek_wiki_def
        get_page_extract_parse_def)
  from get_page_extract_result [OF run] run show ?thesis by simp
qed

text \<open>
  The claim C7 itself fails: the method does not always return. On a page whose
  \<^verbatim>\<open>thumbnail\<close> is a string, \<^verbatim>\<open>page_data.get("thumbnail", {}).get("source")\<close> raises an
  \<^verbatim>\<open>AttributeError\<close>, so the call yields neither \<^verbatim>\<open>None\<close> nor a record, although the
  answer is a 200 with a page that is not missing.
\<close>

theorem get_page_extract_raises:
  "get_page_extract thumb_wiki ''Kweebec'' [] =
     (Inl AttributeError, [get_page_extract_params ''Kweebec''])"
  by (simp add: get_page_extract_def session_get_def thumb_wiki_def get_page_extract_parse_def)

section \<open>The cascade stops at the first stage that finds something\<close>

lemma bind_io_Inr: "m h = (Inr x, h') \<Longrightarrow> bind_io m f h = f x h'"
  by (simp add: bind_io_def)

lemma bind_io_Inl: "m h = (Inl e, h') \<Longrightarrow> bind_io m f h = (Inl e, h')"
  by (simp add: bind_io_def)

lemma bind_io_eq_Inr:
  "bind_io m f h = (Inr y, h'') \<longleftrightarrow> (\<exists>x h'. m h = (Inr x, h') \<and> f x h' = (Inr y, h''))"
  by (cases "m h") (auto simp: bind_io_def split: sum.splits)

lemma return_io_eq [simp]: "return_io x h = (r, h') \<longleftrightarrow> r = Inr x \<and> h' = h"
  by (auto simp: return_io_def)

lemma lift_exn_eq [simp]: "lift_exn x h = (r, h') \<longleftrightarrow> r = x \<and> h' = h"
  by (auto simp: lift_exn_def)

lemma search_parse_unscored:
  assumes "search_parse data = Inr rs" and "r \<in> set rs"
  shows "score r = None"
  using assms
  by (auto simp: search_parse_def bind_exn_eq_Inr split: if_splits)

lemma session_get_cases:
  assumes "session_get remote params on_ok d h = (Inr r, h')"
  shows "h' = h @ [params]"
    and "r = d \<or> (\<exists>data. remote h params = Response 200 (Json data) \<and> on_ok data = Inr r)"
  using assms
  by (auto simp: session_get_def split: response.splits body.splits if_splits)

lemma search_Inr:
  assumes "search remote q l h = (Inr rs, h')"
  shows "h' = h @ [search_params q l] \<and> (\<forall>r\<in>set rs. score r = None)"
  using session_get_cases [OF assms [unfolded search_def]]
  by (auto dest: search_parse_unscored)

text \<open>
  C3. If the first stage, \<^verbatim>\<open>search(query, limit=10)\<close>, returns a list that is not empty,
  \<^verbatim>\<open>fuzzy_search\<close> returns that list as it is, no record of it has a score, and the only
  request made is the one of \<^verbatim>\<open>search\<close>: neither \<^verbatim>\<open>get_all_pages\<close> nor
  \<^verbatim>\<open>search_full\<close> is called.
\<close>

theorem fuzzy_search_first_stage:
  assumes "search remote q 10 h = (Inr rs, h1)" and "rs \<noteq> []"
  shows "fuzzy_search remote sc fmt q th h = (Inr rs, h @ [search_params q 10])
       \<and> (\<forall>r\<in>set rs. score r = None)"
proof -
  from search_Inr [OF assms(1)] have h1: "h1 = h @ [search_params q 10]"
    and unscored: "\<forall>r\<in>set rs. score r = None" by auto
  from assms have "fuzzy_search remote sc fmt q th h = (Inr rs, h1)"
    by (simp add: fuzzy_search_def bind_io_Inr return_io_def)
  with h1 unscored show ?thesis by simp
qed

text \<open>The theorem at the search \<^verbatim>\<open>blo\<close>, answered with three hits.\<close>

theorem fuzzy_search_first_stage_witness:
  "search blo_wiki ''blo'' 10 [] =
     (Inr [\<lparr>title = JStr ''Block'', description = JStr [],
            url = JStr ''https://hytalewiki.org/w/Block'', score = None\<rparr>,
           \<lparr>title = JStr ''Blowgun'', description = JStr [],
            url = JStr ''https://hytalewiki.org/w/Blowgun'', score = None\<rparr>,
           \<lparr>title = JStr ''Bloom'', description = JStr [],
            url = JStr ''https://hytalewiki.org/w/Bloom'', score = None\<rparr>],
      [search_params ''blo'' 10])
   \<and> fuzzy_search blo_wiki kweebek_scorer fmt_whole ''blo'' 60 [] =
     (Inr [\<lparr>title = JStr ''Block'', description = JStr [],
            url = JStr ''https://hytalewiki.org/w/Block'', score = None\<rparr>,
           \<lparr>title = JStr ''Blowgun'', description = JStr [],
            url = JStr ''https://hytalewiki.org/w/Blowgun'', score = None\<rparr>,
           \<lparr>title = JStr ''Bloom'', description = JStr [],
            url = JStr ''https://hytalewiki.org/w/Bloom'', score = None\<rparr>],
      [search_params ''blo'' 10])"
proof -
  have run: "search blo_wiki ''blo'' 10 [] =
     (Inr [\<lparr>title = JStr ''Block'', description = JStr [],
            url = JStr ''https://hytalewiki.org/w/Block'', score = None\<rparr>,
           \<lparr>title = JStr ''Blowgun'', description = JStr [],
            url = JStr ''https://hytalewiki.org/w/Blowgun'', score = None\<rparr>,
           \<lparr>title = JStr ''Bloom'', description = JStr [],
            url = JStr ''https://hytalewiki.org/w/Bloom'', score = None\<rparr>],
      [search_params ''blo'' 10])"
    by (simp add: search_def session_get_def blo_wiki_def search_parse_def)
  from fuzzy_search_first_stage [OF run, of kweebek_scorer fmt_whole 60] run
  show ?thesis by simp
qed

section \<open>The title-sample stage\<close>

lemma map_exn_Inr:
  "map_exn f xs = Inr ys \<Longrightarrow> list_all2 (\<lambda>x y. f x = Inr y) xs ys"
  by (induction xs arbitrary: ys) (auto simp: bind_exn_eq_Inr)

lemma score_choices_sound_all:
  "score_choices sc q cs i = Inr ms \<Longrightarrow>
   \<forall>m\<in>set ms. fst m \<in> set cs \<and> sc q (fst m) = Inr (fst (snd m))"
proof (induction cs arbitrary: i ms)
  case Nil
  then show ?case by simp
next
  case (Cons c cs)
  show ?case
  proof (cases "c = JNull")
    case True
    with Cons.prems have "score_choices sc q cs (Suc i) = Inr ms" by simp
    from Cons.IH [OF this] show ?thesis by auto
  next
    case False
    with Cons.prems obtain s rest where s: "sc q c = Inr s"
      and rest: "score_choices sc q cs (Suc i) = Inr rest" and ms: "ms = (c, s, i) # rest"
      by (auto simp: bind_exn_eq_Inr)
    from Cons.IH [OF rest] s ms show ?thesis by auto
  qed
qed

lemma score_choices_sound:
  "score_choices sc q cs i = Inr ms \<Longrightarrow> m \<in> set ms \<Longrightarrow>
   fst m \<in> set cs \<and> sc q (fst m) = Inr (fst (snd m))"
  using score_choices_sound_all by blast

lemma score_choices_all:
  "score_choices sc q cs i = Inr ms \<Longrightarrow> JNull \<notin> set cs \<Longrightarrow> map fst ms = cs"
  by (induction cs arbitrary: i ms) (auto simp: bind_exn_eq_Inr split: if_splits)

lemma process_extract_Inr:
  assumes "process_extract sc q cs k = Inr ms"
  shows "length ms \<le> k"
    and "\<And>m. m \<in> set ms \<Longrightarrow> fst m \<in> set cs \<and> sc q (fst m) = Inr (fst (snd m))"
    and "sorted (map (\<lambda>m. - fst (snd m)) ms)"
    and "JNull \<notin> set cs \<Longrightarrow> length ms = min k (length cs)"
proof -
  from assms obtain scd where sc: "score_choices sc q cs 0 = Inr scd"
    and ms: "ms = take k (sort_key (\<lambda>m. - fst (snd m)) scd)"
    by (auto simp: process_extract_def bind_exn_eq_Inr)
  show "length ms \<le> k" by (simp add: ms)
  show "fst m \<in> set cs \<and> sc q (fst m) = Inr (fst (snd m))" if "m \<in> set ms" for m
  proof -
    from that have "m \<in> set scd" by (auto simp: ms dest: in_set_takeD)
    with sc show ?thesis by (rule score_choices_sound)
  qed
  have "sorted (map (\<lambda>m. - fst (snd m)) (sort_key (\<lambda>m. - fst (snd m)) scd))"
    by (rule sorted_sort_key)
  then show "sorted (map (\<lambda>m. - fst (snd m)) ms)"
    unfolding ms take_map [symmetric] by (rule sorted_wrt_take)
  show "length ms = min k (length cs)" if "JNull \<notin> set cs"
  proof -
    from score_choices_all [OF sc that] have "length scd = length cs"
      by (metis length_map)
    then show ?thesis by (simp add: ms min.commute)
  qed
qed

lemma match_record_Inr:
  assumes "match_record fmt m = Inr r"
  shows "\<exists>t. fst m = JStr t \<and> title r = JStr t \<and> score r = Some (fst (snd m))
           \<and> description r = JStr (''Coincidencia: '' @ fmt (fst (snd m)) @ ''%'')
           \<and> url r = JStr (''https://hytalewiki.org/w/'' @ replace '' '' ''_'' t)"
  using assms
  by (cases "fst m") (auto simp: match_record_def bind_exn_eq_Inr WIKI_BASE_URL_def)

lemma match_records_Inr:
  assumes "match_records fmt th ms = Inr rs"
  shows "length rs \<le> length ms"
    and "\<And>r. r \<in> set rs \<Longrightarrow> \<exists>m\<in>set ms. th \<le> fst (snd m) \<and> match_record fmt m = Inr r"
proof -
  from assms have l2: "list_all2 (\<lambda>m r. match_record fmt m = Inr r)
      (filter (\<lambda>m. th \<le> fst (snd m)) ms) rs"
    unfolding match_records_def by (rule map_exn_Inr)
  then have "length rs = length (filter (\<lambda>m. th \<le> fst (snd m)) ms)"
    by (simp add: list_all2_lengthD)
  then show "length rs \<le> length ms" by simp
  show "\<exists>m\<in>set ms. th \<le> fst (snd m) \<and> match_record fmt m = Inr r" if "r \<in> set rs" for r
  proof -
    from that obtain i where i: "i < length rs" "rs ! i = r" by (auto simp: in_set_conv_nth)
    let ?fs = "filter (\<lambda>m. th \<le> fst (snd m)) ms"
    from l2 i have "i < length ?fs" and "match_record fmt (?fs ! i) = Inr r"
      by (auto simp: list_all2_conv_all_nth)
    moreover from \<open>i < length ?fs\<close> have "?fs ! i \<in> set ?fs" by (rule nth_mem)
    ultimately show ?thesis by auto
  qed
qed

lemma get_all_pages_log:
  "get_all_pages remote q l h = (r, h') \<Longrightarrow> h' = h @ [get_all_pages_params q l]"
  using session_get_log [of remote "get_all_pages_params q l" get_all_pages_parse "[]" h]
  by (simp add: get_all_pages_def)

lemma title_sample_stage_Inr:
  assumes "title_sample_stage remote sc fmt q th h = (Inr rs, h')"
  shows "\<exists>all_pages. get_all_pages remote q 50 h = (Inr all_pages, h')
           \<and> length rs \<le> 5
           \<and> (\<forall>r\<in>set rs. \<exists>t s. title r = JStr t \<and> JStr t \<in> set all_pages
                 \<and> score r = Some s \<and> th \<le> s
                 \<and> description r = JStr (''Coincidencia: '' @ fmt s @ ''%'')
                 \<and> url r = JStr (''https://hytalewiki.org/w/'' @ replace '' '' ''_'' t))"
proof -
  from assms obtain all_pages where gp: "get_all_pages remote q 50 h = (Inr all_pages, h')"
    and rest: "if all_pages \<noteq> [] then
        bind_exn (process_extract sc q all_pages 5) (match_records fmt th) = Inr rs
      else rs = []"
    by (auto simp: title_sample_stage_def bind_io_eq_Inr split: if_splits)
  show ?thesis
  proof (cases "all_pages = []")
    case True
    with rest gp show ?thesis by auto
  next
    case False
    with rest obtain ms where pe: "process_extract sc q all_pages 5 = Inr ms"
      and mr: "match_records fmt th ms = Inr rs"
      by (auto simp: bind_exn_eq_Inr)
    from process_extract_Inr(1) [OF pe] match_records_Inr(1) [OF mr]
    have len: "length rs \<le> 5" by simp
    have "\<exists>t s. title r = JStr t \<and> JStr t \<in> set all_pages
                 \<and> score r = Some s \<and> th \<le> s
                 \<and> description r = JStr (''Coincidencia: '' @ fmt s @ ''%'')
                 \<and> url r = JStr (''https://hytalewiki.org/w/'' @ replace '' '' ''_'' t)"
      if "r \<in> set rs" for r
    proof -
      from match_records_Inr(2) [OF mr that] obtain m where m: "m \<in> set ms"
        and th: "th \<le> fst (snd m)" and rec: "match_record fmt m = Inr r" by blast
      from process_extract_Inr(2) [OF pe m] have "fst m \<in> set all_pages" by simp
      with match_record_Inr [OF rec] th show ?thesis by auto
    qed
    with gp len show ?thesis by blast
  qed
qed

text \<open>Running the code at the typo \<^verbatim>\<open>Kweebek\<close>.\<close>

lemmas params_defs = search_params_def search_full_params_def get_all_pages_params_def
  get_page_extract_params_def get_categories_params_def

lemma fmt_whole_88: "fmt_whole 88 = ''88.0''"
  by code_simp

lemma fmt_whole_62: "fmt_whole 62 = ''62.0''"
  by code_simp

lemma kweebek_search:
  "search kweebek_wiki ''Kweebek'' 10 h = (Inr [], h @ [search_params ''Kweebek'' 10])"
  by (simp add: search_def session_get_def kweebek_wiki_def search_parse_def params_defs)

lemma kweebek_title_sample:
  "title_sample_stage kweebek_wiki kweebek_scorer fmt_whole ''Kweebek'' 60 h =
     (Inr [\<lparr>title = JStr ''Kweebec'', description = JStr ''Coincidencia: 88.0%'',
            url = JStr ''https://hytalewiki.org/w/Kweebec'', score = Some 88\<rparr>,
           \<lparr>title = JStr ''Kweebec village'', description = JStr ''Coincidencia: 62.0%'',
            url = JStr ''https://hytalewiki.org/w/Kweebec_village'', score = Some 62\<rparr>],
      h @ [get_all_pages_params ''Kweebek'' 50])"
  by (simp add: title_sample_stage_def bind_io_def get_all_pages_def session_get_def
      kweebek_wiki_def get_all_pages_parse_def params_defs process_extract_def
      kweebek_scorer_def match_records_def match_record_def replace.simps WIKI_BASE_URL_def
      fmt_whole_88 fmt_whole_62 lift_exn_def)

text \<open>
  C4, as the code has it. When the first stage found nothing, every record that the
  title-sample stage produces (with the threshold 60 of \<^verbatim>\<open>fuzzy_search\<close>) has a score of at
  least 60; there are at most 5 of them; the title of each is a string of the sample that
  \<^verbatim>\<open>get_all_pages\<close> returned; its description is \<^verbatim>\<open>Coincidencia: \<close>, the text of the score
  and \<^verbatim>\<open>%\<close>; and its URL is the base URL, \<^verbatim>\<open>/w/\<close> and the title with every space
  replaced by an underscore. If there is such a record, these records are what
  \<^verbatim>\<open>fuzzy_search\<close> returns, after two requests.
\<close>

theorem title_sample_records:
  assumes "search remote q 10 h = (Inr [], h1)"
    and "title_sample_stage remote sc fmt q 60 h1 = (Inr rs, h2)"
  shows "(rs \<noteq> [] \<longrightarrow> fuzzy_search remote sc fmt q 60 h = (Inr rs, h2))
       \<and> (\<exists>all_pages. get_all_pages remote q 50 h1 = (Inr all_pages, h2)
             \<and> length rs \<le> 5
             \<and> (\<forall>r\<in>set rs. \<exists>t s. title r = JStr t \<and> JStr t \<in> set all_pages
                   \<and> score r = Some s \<and> 60 \<le> s
                   \<and> description r = JStr (''Coincidencia: '' @ fmt s @ ''%'')
                   \<and> url r = JStr (''https://hytalewiki.org/w/'' @ replace '' '' ''_'' t)))"
proof -
  from assms have "rs \<noteq> [] \<longrightarrow> fuzzy_search remote sc fmt q 60 h = (Inr rs, h2)"
    by (simp add: fuzzy_search_def bind_io_Inr return_io_def)
  with title_sample_stage_Inr [OF assms(2)] show ?thesis by blast
qed

text \<open>The theorem at the typo \<^verbatim>\<open>Kweebek\<close>, where two titles of the sample pass the threshold.\<close>

theorem title_sample_records_witness:
  "search kweebek_wiki ''Kweebek'' 10 [] = (Inr [], [search_params ''Kweebek'' 10])
   \<and> title_sample_stage kweebek_wiki kweebek_scorer fmt_whole ''Kweebek'' 60
       [search_params ''Kweebek'' 10] =
     (Inr [\<lparr>title = JStr ''Kweebec'', description = JStr ''Coincidencia: 88.0%'',
            url = JStr ''https://hytalewiki.org/w/Kweebec'', score = Some 88\<rparr>,
           \<lparr>title = JStr ''Kweebec village'', description = JStr ''Coincidencia: 62.0%'',
            url = JStr ''https://hytalewiki.org/w/Kweebec_village'', score = Some 62\<rparr>],
      [search_params ''Kweebek'' 10, get_all_pages_params ''Kweebek'' 50])
   \<and> fuzzy_search kweebek_wiki kweebek_scorer fmt_whole ''Kweebek'' 60 [] =
     (Inr [\<lparr>title = JStr ''Kweebec'', description = JStr ''Coincidencia: 88.0%'',
            url = JStr ''https://hytalewiki.org/w/Kweebec'', score = Some 88\<rparr>,
           \<lparr>title = JStr ''Kweebec village'', description = JStr ''Coincidencia: 62.0%'',
            url = JStr ''https://hytalewiki.org/w/Kweebec_village'', score = Some 62\<rparr>],
      [search_params ''Kweebek'' 10, get_all_pages_params ''Kweebek'' 50])"
proof -
  have s1: "search kweebek_wiki ''Kweebek'' 10 [] = (Inr [], [search_params ''Kweebek'' 10])"
    using kweebek_search [of "[]"] by simp
  have s2: "title_sample_stage kweebek_wiki kweebek_scorer fmt_whole ''Kweebek'' 60
       [search_params ''Kweebek'' 10] =
     (Inr [\<lparr>title = JStr ''Kweebec'', description = JStr ''Coincidencia: 88.0%'',
            url = JStr ''https://hytalewiki.org/w/Kweebec'', score = Some 88\<rparr>,
           \<lparr>title = JStr ''Kweebec village'', description = JStr ''Coincidencia: 62.0%'',
            url = JStr ''https://hytalewiki.org/w/Kweebec_village'', score = Some 62\<rparr>],
      [search_params ''Kweebek'' 10, get_all_pages_params ''Kweebek'' 50])"
    using kweebek_title_sample [of "[search_params ''Kweebek'' 10]"] by simp
  from title_sample_records [OF s1 s2] s1 s2 show ?thesis by simp
qed

text \<open>
  The claim C4 itself fails in one point: the description does not read
  \<^verbatim>\<open>Match: {score}%\<close>. The bot speaks Spanish and the f-string is
  \<^verbatim>\<open>f"Coincidencia: {match[1]}%"\<close>.
\<close>

theorem title_sample_description_not_match:
  "fuzzy_search kweebek_wiki kweebek_scorer fmt_whole ''Kweebek'' 60 [] =
     (Inr [\<lparr>title = JStr ''Kweebec'', description = JStr ''Coincidencia: 88.0%'',
            url = JStr ''https://hytalewiki.org/w/Kweebec'', score = Some 88\<rparr>,
           \<lparr>title = JStr ''Kweebec village'', description = JStr ''Coincidencia: 62.0%'',
            url = JStr ''https://hytalewiki.org/w/Kweebec_village'', score = Some 62\<rparr>],
      [search_params ''Kweebek'' 10, get_all_pages_params ''Kweebek'' 50])
   \<and> JStr ''Coincidencia: 88.0%'' \<noteq> JStr (''Match: '' @ fmt_whole 88 @ ''%'')"
  by (simp add: fuzzy_search_def bind_io_def kweebek_search kweebek_title_sample return_io_def
      fmt_whole_88)

section \<open>The full-text stage and its re-ranking loop\<close>

lemma first_index_Some:
  "first_index P xs = Some j \<Longrightarrow> j < length xs \<and> P (xs ! j)"
  by (induction xs arbitrary: j) (auto split: if_splits)

lemma first_index_None: "first_index P xs = None \<longleftrightarrow> (\<forall>x\<in>set xs. \<not> P x)"
  by (induction xs) auto

lemma first_index_title_cong:
  "map title xs = map title ys \<Longrightarrow>
   first_index (\<lambda>r. title r = t) xs = first_index (\<lambda>r. title r = t) ys"
  by (induction xs arbitrary: ys) auto

lemma map_field_update:
  assumes "j < length xs" and "f y = f (xs ! j)"
  shows "map f (xs[j := y]) = map f xs"
  using assms by (simp add: map_update) (metis list_update_id nth_map)

lemma rerank_loop_store:
  "rerank_loop ms results scored = (store, scored') \<Longrightarrow>
   map title store = map title results
   \<and> map description store = map description results
   \<and> map url store = map url results
   \<and> scored' = scored @ List.map_filter (\<lambda>m. first_index (\<lambda>r. title r = fst m) results) ms"
proof (induction ms arbitrary: results scored)
  case Nil
  then show ?case by (simp add: List.map_filter_simps)
next
  case (Cons m ms)
  show ?case
  proof (cases "first_index (\<lambda>r. title r = fst m) results")
    case None
    with Cons.prems have "rerank_loop ms results scored = (store, scored')" by simp
    from Cons.IH [OF this] None show ?thesis by (simp add: List.map_filter_simps)
  next
    case (Some j)
    let ?res = "results[j := (results ! j)\<lparr>score := Some (fst (snd m))\<rparr>]"
    from Some have j: "j < length results" by (simp add: first_index_Some)
    have t: "map title ?res = map title results"
      and d: "map description ?res = map description results"
      and u: "map url ?res = map url results"
      using j by (simp_all add: map_field_update)
    from Cons.prems Some have "rerank_loop ms ?res (scored @ [j]) = (store, scored')" by simp
    from Cons.IH [OF this] t d u Some show ?thesis
      by (simp add: List.map_filter_simps first_index_title_cong [OF t])
  qed
qed

lemma rerank_loop_scores:
  "rerank_loop ms results scored = (store, scored') \<Longrightarrow> j < length results \<Longrightarrow>
   score (store ! j) =
     (let fs = filter (\<lambda>m. first_index (\<lambda>r. title r = fst m) results = Some j) ms
      in if fs = [] then score (results ! j) else Some (fst (snd (last fs))))"
proof (induction ms arbitrary: results scored)
  case Nil
  then show ?case by simp
next
  case (Cons m ms)
  show ?case
  proof (cases "first_index (\<lambda>r. title r = fst m) results")
    case None
    with Cons.prems have "rerank_loop ms results scored = (store, scored')" by simp
    from Cons.IH [OF this Cons.prems(2)] None show ?thesis by simp
  next
    case (Some k)
    let ?res = "results[k := (results ! k)\<lparr>score := Some (fst (snd m))\<rparr>]"
    from Some have k: "k < length results" by (simp add: first_index_Some)
    have t: "map title ?res = map title results"
      using k by (simp add: map_field_update)
    from Cons.prems Some have run: "rerank_loop ms ?res (scored @ [k]) = (store, scored')"
      by simp
    from Cons.prems(2) have "j < length ?res" by simp
    from Cons.IH [OF run this]
    have ih: "score (store ! j) =
     (let fs = filter (\<lambda>m. first_index (\<lambda>r. title r = fst m) results = Some j) ms
      in if fs = [] then score (?res ! j) else Some (fst (snd (last fs))))"
      by (simp add: first_index_title_cong [OF t])
    show ?thesis
    proof (cases "k = j")
      case True
      with ih Some Cons.prems(2) show ?thesis by (simp add: Let_def)
    next
      case False
      with ih Some show ?thesis by (simp add: Let_def)
    qed
  qed
qed

lemma rerank_eq:
  "rerank ms results =
     map (\<lambda>j. fst (rerank_loop ms results []) ! j)
       (List.map_filter (\<lambda>m. first_index (\<lambda>r. title r = fst m) results) ms)"
proof -
  obtain store scored' where run: "rerank_loop ms results [] = (store, scored')"
    by (cases "rerank_loop ms results []")
  from rerank_loop_store [OF run] run show ?thesis by (simp add: rerank_def)
qed

lemma rerank_loop_length:
  "rerank_loop ms results scored = (store, scored') \<Longrightarrow> length store = length results"
  using rerank_loop_store [of ms results scored store scored'] by (metis length_map)

text \<open>Every record of the re-ranked list has a score.\<close>

lemma rerank_scored:
  assumes "r \<in> set (rerank ms results)"
  shows "score r \<noteq> None"
proof -
  obtain store scored' where run: "rerank_loop ms results [] = (store, scored')"
    by (cases "rerank_loop ms results []")
  let ?idx = "\<lambda>m. first_index (\<lambda>r. title r = fst m) results"
  from assms run obtain j where r: "r = store ! j" and "j \<in> set (List.map_filter ?idx ms)"
    by (auto simp: rerank_eq)
  then obtain m where m: "m \<in> set ms" "?idx m = Some j"
    by (auto simp: List.map_filter_def)
  then have j: "j < length results" by (simp add: first_index_Some)
  from m have "filter (\<lambda>m. ?idx m = Some j) ms \<noteq> []"
    by (auto simp: filter_empty_conv)
  with rerank_loop_scores [OF run j] r show ?thesis by (simp add: Let_def)
qed


lemma full_text_stage_Inr:
  assumes "full_text_stage remote sc q h = (Inr rs, h')"
  shows "\<exists>results. search_full remote q 10 h = (Inr results, h')
           \<and> (if results \<noteq> [] then
                 \<exists>ms. process_extract sc q (map title results) 5 = Inr ms
                   \<and> rs = rerank ms results
               else rs = [])"
proof -
  from assms obtain results h1 where sf: "search_full remote q 10 h = (Inr results, h1)"
    and rest: "(if results \<noteq> [] then
         lift_exn (bind_exn (process_extract sc q (map title results) 5)
                     (\<lambda>matches. Inr (rerank matches results)))
       else return_io results) h1 = (Inr rs, h')"
    unfolding full_text_stage_def bind_io_eq_Inr by blast
  show ?thesis
  proof (cases "results = []")
    case True
    with sf rest show ?thesis by simp
  next
    case False
    with rest have "h1 = h'" and "bind_exn (process_extract sc q (map title results) 5)
                     (\<lambda>matches. Inr (rerank matches results)) = Inr rs" by simp_all
    with sf False show ?thesis by (auto simp: bind_exn_eq_Inr)
  qed
qed

section \<open>Scored and unscored records\<close>

lemma kweebek_fuzzy_search:
  "fuzzy_search kweebek_wiki kweebek_scorer fmt_whole ''Kweebek'' 60 h =
     (Inr [\<lparr>title = JStr ''Kweebec'', description = JStr ''Coincidencia: 88.0%'',
            url = JStr ''https://hytalewiki.org/w/Kweebec'', score = Some 88\<rparr>,
           \<lparr>title = JStr ''Kweebec village'', description = JStr ''Coincidencia: 62.0%'',
            url = JStr ''https://hytalewiki.org/w/Kweebec_village'', score = Some 62\<rparr>],
      h @ [search_params ''Kweebek'' 10, get_all_pages_params ''Kweebek'' 50])"
  by (simp add: fuzzy_search_def bind_io_def kweebek_search kweebek_title_sample return_io_def)

text \<open>
  C9. The list that \<^verbatim>\<open>fuzzy_search\<close> returns is uniform: either no record of it has a
  score (the first stage produced it) or every record has one (the title-sample stage or
  the full-text stage produced it).
\<close>

theorem fuzzy_search_uniform:
  assumes "fuzzy_search remote sc fmt q th h = (Inr rs, h')"
  shows "(\<forall>r\<in>set rs. score r = None) \<or> (\<forall>r\<in>set rs. score r \<noteq> None)"
proof -
  from assms obtain r1 h1 r2 h2 where
    s1: "search remote q 10 h = (Inr r1, h1)" and
    s2: "(if r1 = [] then title_sample_stage remote sc fmt q th else return_io r1) h1
           = (Inr r2, h2)" and
    s3: "(if r2 = [] then full_text_stage remote sc q else return_io r2) h2 = (Inr rs, h')"
    unfolding fuzzy_search_def bind_io_eq_Inr by blast
  show ?thesis
  proof (cases "r1 = []")
    case False
    with s2 s3 have "rs = r1" by simp
    with search_Inr [OF s1] show ?thesis by simp
  next
    case True
    with s2 have ts: "title_sample_stage remote sc fmt q th h1 = (Inr r2, h2)" by simp
    show ?thesis
    proof (cases "r2 = []")
      case False
      with s3 have "rs = r2" by simp
      with title_sample_stage_Inr [OF ts] have "\<forall>r\<in>set rs. score r \<noteq> None" by fastforce
      then show ?thesis ..
    next
      case True
      with s3 have "full_text_stage remote sc q h2 = (Inr rs, h')" by simp
      from full_text_stage_Inr [OF this] have "\<forall>r\<in>set rs. score r \<noteq> None"
        by (auto split: if_splits dest: rerank_scored)
      then show ?thesis ..
    qed
  qed
qed

text \<open>The theorem at the typo \<^verbatim>\<open>Kweebek\<close>, whose two suggestions are both scored.\<close>

theorem fuzzy_search_uniform_witness:
  "fuzzy_search kweebek_wiki kweebek_scorer fmt_whole ''Kweebek'' 60 [] =
     (Inr [\<lparr>title = JStr ''Kweebec'', description = JStr ''Coincidencia: 88.0%'',
            url = JStr ''https://hytalewiki.org/w/Kweebec'', score = Some 88\<rparr>,
           \<lparr>title = JStr ''Kweebec village'', description = JStr ''Coincidencia: 62.0%'',
            url = JStr ''https://hytalewiki.org/w/Kweebec_village'', score = Some 62\<rparr>],
      [search_params ''Kweebek'' 10, get_all_pages_params ''Kweebek'' 50])
   \<and> ((\<forall>r\<in>set [\<lparr>title = JStr ''Kweebec'', description = JStr ''Coincidencia: 88.0%'',
            url = JStr ''https://hytalewiki.org/w/Kweebec'', score = Some 88\<rparr>,
           \<lparr>title = JStr ''Kweebec village'', description = JStr ''Coincidencia: 62.0%'',
            url = JStr ''https://hytalewiki.org/w/Kweebec_village'', score = Some (62::rat)\<rparr>].
         score r = None)
      \<or> (\<forall>r\<in>set [\<lparr>title = JStr ''Kweebec'', description = JStr ''Coincidencia: 88.0%'',
            url = JStr ''https://hytalewiki.org/w/Kweebec'', score = Some 88\<rparr>,
           \<lparr>title = JStr ''Kweebec village'', description = JStr ''Coincidencia: 62.0%'',
            url = JStr ''https://hytalewiki.org/w/Kweebec_village'', score = Some (62::rat)\<rparr>].
         score r \<noteq> None))"
proof -
  have run: "fuzzy_search kweebek_wiki kweebek_scorer fmt_whole ''Kweebek'' 60 [] =
     (Inr [\<lparr>title = JStr ''Kweebec'', description = JStr ''Coincidencia: 88.0%'',
            url = JStr ''https://hytalewiki.org/w/Kweebec'', score = Some 88\<rparr>,
           \<lparr>title = JStr ''Kweebec village'', description = JStr ''Coincidencia: 62.0%'',
            url = JStr ''https://hytalewiki.org/w/Kweebec_village'', score = Some 62\<rparr>],
      [search_params ''Kweebek'' 10, get_all_pages_params ''Kweebek'' 50])"
    using kweebek_fuzzy_search [of "[]"] by simp
  from fuzzy_search_uniform [OF run] have u: "(\<forall>r\<in>set [\<lparr>title = JStr ''Kweebec'', description = JStr ''Coincidencia: 88.0%'',
            url = JStr ''https://hytalewiki.org/w/Kweebec'', score = Some 88\<rparr>,
           \<lparr>title = JStr ''Kweebec village'', description = JStr ''Coincidencia: 62.0%'',
            url = JStr ''https://hytalewiki.org/w/Kweebec_village'', score = Some (62::rat)\<rparr>].
         score r = None)
      \<or> (\<forall>r\<in>set [\<lparr>title = JStr ''Kweebec'', description = JStr ''Coincidencia: 88.0%'',
            url = JStr ''https://hytalewiki.org/w/Kweebec'', score = Some 88\<rparr>,
           \<lparr>title = JStr ''Kweebec village'', description = JStr ''Coincidencia: 62.0%'',
            url = JStr ''https://hytalewiki.org/w/Kweebec_village'', score = Some (62::rat)\<rparr>].
         score r \<noteq> None)" .
  show ?thesis by (rule conjI [OF run u])
qed


section \<open>What the full-text stage returns\<close>

lemma map_filter_total:
  "\<forall>x\<in>set xs. f x \<noteq> None \<Longrightarrow> List.map_filter f xs = map (\<lambda>x. the (f x)) xs"
  by (induction xs) (auto simp: List.map_filter_simps)

lemma rerank_nth:
  assumes found: "\<forall>m\<in>set ms. fst m \<in> title ` set results"
    and same: "\<forall>m\<in>set ms. \<forall>m'\<in>set ms. fst m = fst m' \<longrightarrow> fst (snd m) = fst (snd m')"
  shows "length (rerank ms results) = length ms"
    and "\<And>i. i < length ms \<Longrightarrow>
          title (rerank ms results ! i) = fst (ms ! i)
        \<and> score (rerank ms results ! i) = Some (fst (snd (ms ! i)))
        \<and> (\<exists>r\<in>set results. title r = title (rerank ms results ! i)
              \<and> description r = description (rerank ms results ! i)
              \<and> url r = url (rerank ms results ! i))"
proof -
  let ?idx = "\<lambda>m. first_index (\<lambda>r. title r = fst m) results"
  obtain store scored' where run: "rerank_loop ms results [] = (store, scored')"
    by (cases "rerank_loop ms results []")
  have tot: "\<forall>m\<in>set ms. ?idx m \<noteq> None"
  proof
    fix m assume "m \<in> set ms"
    with found obtain r where "r \<in> set results" "title r = fst m" by force
    then show "?idx m \<noteq> None" unfolding first_index_None by blast
  qed
  have eq: "rerank ms results = map (\<lambda>m. store ! the (?idx m)) ms"
    using run by (simp add: rerank_eq map_filter_total [OF tot] comp_def)
  show "length (rerank ms results) = length ms" by (simp add: eq)
  show "title (rerank ms results ! i) = fst (ms ! i)
        \<and> score (rerank ms results ! i) = Some (fst (snd (ms ! i)))
        \<and> (\<exists>r\<in>set results. title r = title (rerank ms results ! i)
              \<and> description r = description (rerank ms results ! i)
              \<and> url r = url (rerank ms results ! i))"
    if i: "i < length ms" for i
  proof -
    let ?m = "ms ! i"
    from i have m: "?m \<in> set ms" by simp
    with tot obtain j where idx: "?idx ?m = Some j" by auto
    from first_index_Some [OF idx] have j: "j < length results"
      and tj: "title (results ! j) = fst ?m" by auto
    from i idx have r: "rerank ms results ! i = store ! j" by (simp add: eq)
    from rerank_loop_store [OF run] have
      mt: "map title store = map title results" and
      md: "map description store = map description results" and
      mu: "map url store = map url results" by auto
    from mt have len: "length store = length results" by (metis length_map)
    from mt j len have t: "title (store ! j) = title (results ! j)" by (metis nth_map)
    from md j len have d: "description (store ! j) = description (results ! j)"
      by (metis nth_map)
    from mu j len have u: "url (store ! j) = url (results ! j)" by (metis nth_map)
    let ?fs = "filter (\<lambda>m. ?idx m = Some j) ms"
    from m idx have ne: "?fs \<noteq> []" by (auto simp: filter_empty_conv)
    then have "last ?fs \<in> set ?fs" by (rule last_in_set)
    then have l: "last ?fs \<in> set ms" and lidx: "?idx (last ?fs) = Some j" by auto
    from first_index_Some [OF lidx] tj have "fst (last ?fs) = fst ?m" by simp
    with same l m have "fst (snd (last ?fs)) = fst (snd ?m)" by blast
    with rerank_loop_scores [OF run j] ne have sc: "score (store ! j) = Some (fst (snd ?m))"
      by (simp add: Let_def)
    from j have "results ! j \<in> set results" by simp
    with r t d u tj sc show ?thesis by auto
  qed
qed

lemma py_replace_Inr:
  "py_replace x old new = Inr s \<longleftrightarrow> (\<exists>t. x = JStr t \<and> s = replace old new t)"
  by (cases x) auto

lemma search_full_record_Inr:
  "search_full_record x = Inr r \<Longrightarrow> \<exists>t. title r = JStr t"
  by (auto simp: search_full_record_def bind_exn_eq_Inr py_replace_Inr)

lemma search_full_titles:
  assumes "search_full remote q l h = (Inr rs, h')" and "r \<in> set rs"
  shows "\<exists>t. title r = JStr t"
proof -
  from session_get_cases(2) [OF assms(1) [unfolded search_full_def]] assms(2)
  obtain data where "search_full_parse data = Inr rs" by auto
  then obtain xs where "map_exn search_full_record xs = Inr rs"
    by (auto simp: search_full_parse_def bind_exn_eq_Inr)
  then have "list_all2 (\<lambda>x y. search_full_record x = Inr y) xs rs" by (rule map_exn_Inr)
  with assms(2) obtain x where "search_full_record x = Inr r"
    by (auto simp: in_set_conv_nth list_all2_conv_all_nth)
  then show ?thesis by (rule search_full_record_Inr)
qed


text \<open>
  C5. When the first two stages found nothing, \<^verbatim>\<open>fuzzy_search\<close> returns the re-ranking of
  the results of \<^verbatim>\<open>search_full(query, limit=10)\<close>. With \<open>matches\<close> the output of the
  ranking engine on their titles (its limit is 5), the list returned has one record for
  every match, in the order of the matches, with no threshold applied: the record at a
  position has the title of the match there, the score of that match, and the description
  and URL of a result with that title. The list is in descending order of score, and a
  result whose title is in no match has no record in the list.
\<close>

theorem full_text_rerank:
  assumes s1: "search remote q 10 h = (Inr [], h1)"
    and s2: "title_sample_stage remote sc fmt q th h1 = (Inr [], h2)"
    and s3: "search_full remote q 10 h2 = (Inr results, h3)"
    and run: "fuzzy_search remote sc fmt q th h = (Inr rs, h4)"
  shows "(\<exists>matches. process_extract sc q (map title results) 5 = Inr matches
           \<and> length rs = length matches
           \<and> length rs = min 5 (length results)
           \<and> (\<forall>i<length rs.
                 title (rs ! i) = fst (matches ! i)
               \<and> score (rs ! i) = Some (fst (snd (matches ! i)))
               \<and> (\<exists>r\<in>set results. title r = title (rs ! i)
                     \<and> description r = description (rs ! i) \<and> url r = url (rs ! i)))
           \<and> sorted_wrt (\<lambda>a b. score_or_0 b \<le> score_or_0 a) rs
           \<and> (\<forall>r\<in>set results. title r \<notin> fst ` set matches \<longrightarrow> title r \<notin> title ` set rs))"
proof -
  from s1 s2 have "fuzzy_search remote sc fmt q th h = full_text_stage remote sc q h2"
    by (simp add: fuzzy_search_def bind_io_Inr)
  with run have "full_text_stage remote sc q h2 = (Inr rs, h4)" by simp
  from full_text_stage_Inr [OF this] s3 have
    rest: "if results \<noteq> [] then
             \<exists>ms. process_extract sc q (map title results) 5 = Inr ms \<and> rs = rerank ms results
           else rs = []" by auto
  show ?thesis
  proof (cases "results = []")
    case True
    with rest have "rs = []" by simp
    moreover have "process_extract sc q (map title results) 5 = Inr []"
      using True by (simp add: process_extract_def)
    ultimately show ?thesis using True by simp
  next
    case False
    with rest obtain ms where pe: "process_extract sc q (map title results) 5 = Inr ms"
      and rs: "rs = rerank ms results" by auto
    have nonull: "JNull \<notin> set (map title results)"
      using search_full_titles [OF s3] by fastforce
    from process_extract_Inr(4) [OF pe nonull]
    have lms: "length ms = min 5 (length results)" by simp
    have found: "\<forall>m\<in>set ms. fst m \<in> title ` set results"
      using process_extract_Inr(2) [OF pe] by simp
    have same: "\<forall>m\<in>set ms. \<forall>m'\<in>set ms. fst m = fst m' \<longrightarrow> fst (snd m) = fst (snd m')"
    proof (intro ballI impI)
      fix m m' assume "m \<in> set ms" "m' \<in> set ms" "fst m = fst m'"
      with process_extract_Inr(2) [OF pe] have "Inr (fst (snd m)) = (Inr (fst (snd m')) :: exn + rat)"
        by metis
      then show "fst (snd m) = fst (snd m')" by simp
    qed
    note nth = rerank_nth [OF found same]
    from nth(1) rs have len: "length rs = length ms" by simp
    have pos: "\<forall>i<length rs.
                 title (rs ! i) = fst (ms ! i)
               \<and> score (rs ! i) = Some (fst (snd (ms ! i)))
               \<and> (\<exists>r\<in>set results. title r = title (rs ! i)
                     \<and> description r = description (rs ! i) \<and> url r = url (rs ! i))"
      unfolding rs nth(1) using nth(2) by blast
    have "map (\<lambda>r. - score_or_0 r) rs = map (\<lambda>m. - fst (snd m)) ms"
      using pos len by (intro nth_equalityI) (simp_all add: score_or_0_def)
    with process_extract_Inr(3) [OF pe] have "sorted (map (\<lambda>r. - score_or_0 r) rs)" by simp
    then have srt: "sorted_wrt (\<lambda>a b. score_or_0 b \<le> score_or_0 a) rs"
      by (simp add: sorted_map)
    have "title ` set rs \<subseteq> fst ` set ms"
    proof
      fix t assume "t \<in> title ` set rs"
      then obtain i where "i < length rs" "t = title (rs ! i)"
        by (auto simp: in_set_conv_nth)
      with pos len show "t \<in> fst ` set ms" by (metis image_eqI nth_mem)
    qed
    then have drop: "\<forall>r\<in>set results. title r \<notin> fst ` set ms \<longrightarrow> title r \<notin> title ` set rs"
      by blast
    from len lms have lrs: "length rs = min 5 (length results)" by simp
    show ?thesis by (rule exI [of _ ms]) (intro conjI pe len lrs pos srt drop)
  qed
qed

text \<open>Running the code at the search \<^verbatim>\<open>trork camp\<close>.\<close>

lemma trork_search:
  "search trork_wiki ''trork camp'' 10 h = (Inr [], h @ [search_params ''trork camp'' 10])"
  by (simp add: search_def session_get_def trork_wiki_def params_defs)

lemma trork_title_sample:
  "title_sample_stage trork_wiki trork_scorer fmt_whole ''trork camp'' 60 h =
     (Inr [], h @ [get_all_pages_params ''trork camp'' 50])"
  by (simp add: title_sample_stage_def bind_io_def get_all_pages_def session_get_def
      trork_wiki_def params_defs return_io_def)

lemma trork_search_full:
  "search_full trork_wiki ''trork camp'' 10 h =
     (Inr [\<lparr>title = JStr ''Trork'', description = JStr ''A hostile race'',
            url = JStr ''https://hytalewiki.org/w/Trork'', score = None\<rparr>,
           \<lparr>title = JStr ''Trork Camp'', description = JStr ''Trork outpost'',
            url = JStr ''https://hytalewiki.org/w/Trork_Camp'', score = None\<rparr>],
      h @ [search_full_params ''trork camp'' 10])"
  by (simp add: search_full_def session_get_def trork_wiki_def params_defs search_full_parse_def
      search_full_record_def searchmatch_open_def replace.simps WIKI_BASE_URL_def)

lemma trork_fuzzy_search:
  "fuzzy_search trork_wiki trork_scorer fmt_whole ''trork camp'' 60 h =
     (Inr [\<lparr>title = JStr ''Trork Camp'', description = JStr ''Trork outpost'',
            url = JStr ''https://hytalewiki.org/w/Trork_Camp'', score = Some 95\<rparr>,
           \<lparr>title = JStr ''Trork'', description = JStr ''A hostile race'',
            url = JStr ''https://hytalewiki.org/w/Trork'', score = Some 57\<rparr>],
      h @ [search_params ''trork camp'' 10, get_all_pages_params ''trork camp'' 50,
           search_full_params ''trork camp'' 10])"
  by (simp add: fuzzy_search_def bind_io_def trork_search trork_title_sample full_text_stage_def
      trork_search_full process_extract_def trork_scorer_def rerank_def lift_exn_def)

text \<open>
  The theorem at the search \<^verbatim>\<open>trork camp\<close>: the second hit scores 95 and comes first, the
  first hit scores 57, below the threshold of the stage before, and is kept.
\<close>

theorem full_text_rerank_witness:
  "search trork_wiki ''trork camp'' 10 [] = (Inr [], [search_params ''trork camp'' 10])
   \<and> title_sample_stage trork_wiki trork_scorer fmt_whole ''trork camp'' 60
       [search_params ''trork camp'' 10] =
     (Inr [], [search_params ''trork camp'' 10, get_all_pages_params ''trork camp'' 50])
   \<and> search_full trork_wiki ''trork camp'' 10
       [search_params ''trork camp'' 10, get_all_pages_params ''trork camp'' 50] =
     (Inr [\<lparr>title = JStr ''Trork'', description = JStr ''A hostile race'',
            url = JStr ''https://hytalewiki.org/w/Trork'', score = None\<rparr>,
           \<lparr>title = JStr ''Trork Camp'', description = JStr ''Trork outpost'',
            url = JStr ''https://hytalewiki.org/w/Trork_Camp'', score = None\<rparr>],
      [search_params ''trork camp'' 10, get_all_pages_params ''trork camp'' 50,
       search_full_params ''trork camp'' 10])
   \<and> fuzzy_search trork_wiki trork_scorer fmt_whole ''trork camp'' 60 [] =
     (Inr [\<lparr>title = JStr ''Trork Camp'', description = JStr ''Trork outpost'',
            url = JStr ''https://hytalewiki.org/w/Trork_Camp'', score = Some 95\<rparr>,
           \<lparr>title = JStr ''Trork'', description = JStr ''A hostile race'',
            url = JStr ''https://hytalewiki.org/w/Trork'', score = Some 57\<rparr>],
      [search_params ''trork camp'' 10, get_all_pages_params ''trork camp'' 50,
       search_full_params ''trork camp'' 10])
   \<and> (\<exists>matches. process_extract trork_scorer ''trork camp'' (map title [\<lparr>title = JStr ''Trork'', description = JStr ''A hostile race'',
            url = JStr ''https://hytalewiki.org/w/Trork'', score = None\<rparr>,
           \<lparr>title = JStr ''Trork Camp'', description = JStr ''Trork outpost'',
            url = JStr ''https://hytalewiki.org/w/Trork_Camp'', score = None\<rparr>]) 5 = Inr matches
           \<and> length [\<lparr>title = JStr ''Trork Camp'', description = JStr ''Trork outpost'',
            url = JStr ''https://hytalewiki.org/w/Trork_Camp'', score = Some 95\<rparr>,
           \<lparr>title = JStr ''Trork'', description = JStr ''A hostile race'',
            url = JStr ''https://hytalewiki.org/w/Trork'', score = Some 57\<rparr>] = length matches
           \<and> length [\<lparr>title = JStr ''Trork Camp'', description = JStr ''Trork outpost'',
            url = JStr ''https://hytalewiki.org/w/Trork_Camp'', score = Some 95\<rparr>,
           \<lparr>title = JStr ''Trork'', description = JStr ''A hostile race'',
            url = JStr ''https://hytalewiki.org/w/Trork'', score = Some 57\<rparr>] = min 5 (length [\<lparr>title = JStr ''Trork'', description = JStr ''A hostile race'',
            url = JStr ''https://hytalewiki.org/w/Trork'', score = None\<rparr>,
           \<lparr>title = JStr ''Trork Camp'', description = JStr ''Trork outpost'',
            url = JStr ''https://hytalewiki.org/w/Trork_Camp'', score = None\<rparr>])
           \<and> (\<forall>i<length [\<lparr>title = JStr ''Trork Camp'', description = JStr ''Trork outpost'',
            url = JStr ''https://hytalewiki.org/w/Trork_Camp'', score = Some 95\<rparr>,
           \<lparr>title = JStr ''Trork'', description = JStr ''A hostile race'',
            url = JStr ''https://hytalewiki.org/w/Trork'', score = Some 57\<rparr>].
                 title ([\<lparr>title = JStr ''Trork Camp'', description = JStr ''Trork outpost'',
            url = JStr ''https://hytalewiki.org/w/Trork_Camp'', score = Some 95\<rparr>,
           \<lparr>title = JStr ''Trork'', description = JStr ''A hostile race'',
            url = JStr ''https://hytalewiki.org/w/Trork'', score = Some 57\<rparr>] ! i) = fst (matches ! i)
               \<and> score ([\<lparr>title = JStr ''Trork Camp'', description = JStr ''Trork outpost'',
            url = JStr ''https://hytalewiki.org/w/Trork_Camp'', score = Some 95\<rparr>,
           \<lparr>title = JStr ''Trork'', description = JStr ''A hostile race'',
            url = JStr ''https://hytalewiki.org/w/Trork'', score = Some 57\<rparr>] ! i) = Some (fst (snd (matches ! i)))
               \<and> (\<exists>r\<in>set [\<lparr>title = JStr ''Trork'', description = JStr ''A hostile race'',
            url = JStr ''https://hytalewiki.org/w/Trork'', score = None\<rparr>,
           \<lparr>title = JStr ''Trork Camp'', description = JStr ''Trork outpost'',
            url = JStr ''https://hytalewiki.org/w/Trork_Camp'', score = None\<rparr>]. title r = title ([\<lparr>title = JStr ''Trork Camp'', description = JStr ''Trork outpost'',
            url = JStr ''https://hytalewiki.org/w/Trork_Camp'', score = Some 95\<rparr>,
           \<lparr>title = JStr ''Trork'', description = JStr ''A hostile race'',
            url = JStr ''https://hytalewiki.org/w/Trork'', score = Some 57\<rparr>] ! i)
                     \<and> description r = description ([\<lparr>title = JStr ''Trork Camp'', description = JStr ''Trork outpost'',
            url = JStr ''https://hytalewiki.org/w/Trork_Camp'', score = Some 95\<rparr>,
           \<lparr>title = JStr ''Trork'', description = JStr ''A hostile race'',
            url = JStr ''https://hytalewiki.org/w/Trork'', score = Some 57\<rparr>] ! i) \<and> url r = url ([\<lparr>title = JStr ''Trork Camp'', description = JStr ''Trork outpost'',
            url = JStr ''https://hytalewiki.org/w/Trork_Camp'', score = Some 95\<rparr>,
           \<lparr>title = JStr ''Trork'', description = JStr ''A hostile race'',
            url = JStr ''https://hytalewiki.org/w/Trork'', score = Some 57\<rparr>] ! i)))
           \<and> sorted_wrt (\<lambda>a b. score_or_0 b \<le> score_or_0 a) [\<lparr>title = JStr ''Trork Camp'', description = JStr ''Trork outpost'',
            url = JStr ''https://hytalewiki.org/w/Trork_Camp'', score = Some 95\<rparr>,
           \<lparr>title = JStr ''Trork'', description = JStr ''A hostile race'',
            url = JStr ''https://hytalewiki.org/w/Trork'', score = Some 57\<rparr>]
           \<and> (\<forall>r\<in>set [\<lparr>title = JStr ''Trork'', description = JStr ''A hostile race'',
            url = JStr ''https://hytalewiki.org/w/Trork'', score = None\<rparr>,
           \<lparr>title = JStr ''Trork Camp'', description = JStr ''Trork outpost'',
            url = JStr ''https://hytalewiki.org/w/Trork_Camp'', score = None\<rparr>]. title r \<notin> fst ` set matches \<longrightarrow> title r \<notin> title ` set [\<lparr>title = JStr ''Trork Camp'', description = JStr ''Trork outpost'',
            url = JStr ''https://hytalewiki.org/w/Trork_Camp'', score = Some 95\<rparr>,
           \<lparr>title = JStr ''Trork'', description = JStr ''A hostile race'',
            url = JStr ''https://hytalewiki.org/w/Trork'', score = Some 57\<rparr>]))"
proof -
  have s1: "search trork_wiki ''trork camp'' 10 [] = (Inr [], [search_params ''trork camp'' 10])"
    using trork_search [of "[]"] by simp
  have s2: "title_sample_stage trork_wiki trork_scorer fmt_whole ''trork camp'' 60
       [search_params ''trork camp'' 10] =
     (Inr [], [search_params ''trork camp'' 10, get_all_pages_params ''trork camp'' 50])"
    using trork_title_sample [of "[search_params ''trork camp'' 10]"] by simp
  have s3: "search_full trork_wiki ''trork camp'' 10
       [search_params ''trork camp'' 10, get_all_pages_params ''trork camp'' 50] =
     (Inr [\<lparr>title = JStr ''Trork'', description = JStr ''A hostile race'',
            url = JStr ''https://hytalewiki.org/w/Trork'', score = None\<rparr>,
           \<lparr>title = JStr ''Trork Camp'', description = JStr ''Trork outpost'',
            url = JStr ''https://hytalewiki.org/w/Trork_Camp'', score = None\<rparr>],
      [search_params ''trork camp'' 10, get_all_pages_params ''trork camp'' 50,
       search_full_params ''trork camp'' 10])"
    using trork_search_full [of "[search_params ''trork camp'' 10,
      get_all_pages_params ''trork camp'' 50]"] by simp
  have run: "fuzzy_search trork_wiki trork_scorer fmt_whole ''trork camp'' 60 [] =
     (Inr [\<lparr>title = JStr ''Trork Camp'', description = JStr ''Trork outpost'',
            url = JStr ''https://hytalewiki.org/w/Trork_Camp'', score = Some 95\<rparr>,
           \<lparr>title = JStr ''Trork'', description = JStr ''A hostile race'',
            url = JStr ''https://hytalewiki.org/w/Trork'', score = Some 57\<rparr>],
      [search_params ''trork camp'' 10, get_all_pages_params ''trork camp'' 50,
       search_full_params ''trork camp'' 10])"
    using trork_fuzzy_search [of "[]"] by simp
  note c = full_text_rerank [OF s1 s2 s3 run]
  show ?thesis by (rule conjI [OF s1 conjI [OF s2 conjI [OF s3 conjI [OF run c]]]])
qed

section \<open>Direct article resolution\<close>

text \<open>A record with a score has a string as its title, whichever stage produced it.\<close>

lemma rerank_titles:
  assumes "r \<in> set (rerank ms results)"
  shows "title r \<in> title ` set results"
proof -
  obtain store scored' where run: "rerank_loop ms results [] = (store, scored')"
    by (cases "rerank_loop ms results []")
  let ?idx = "\<lambda>m. first_index (\<lambda>r. title r = fst m) results"
  from assms run obtain j where r: "r = store ! j" and "j \<in> set (List.map_filter ?idx ms)"
    by (auto simp: rerank_eq)
  then obtain m where "?idx m = Some j" by (auto simp: List.map_filter_def)
  then have j: "j < length results" by (simp add: first_index_Some)
  from rerank_loop_store [OF run] have mt: "map title store = map title results" by simp
  then have "length store = length results" by (metis length_map)
  with mt j have "title (store ! j) = title (results ! j)" by (metis nth_map)
  with r j show ?thesis by simp
qed

lemma fuzzy_search_scored_title:
  assumes run: "fuzzy_search remote sc fmt q th h = (Inr rs, h')"
    and r: "r \<in> set rs" and scored: "score r \<noteq> None"
  shows "\<exists>t. title r = JStr t"
proof -
  from run obtain r1 h1 r2 h2 where
    s1: "search remote q 10 h = (Inr r1, h1)" and
    s2: "(if r1 = [] then title_sample_stage remote sc fmt q th else return_io r1) h1
           = (Inr r2, h2)" and
    s3: "(if r2 = [] then full_text_stage remote sc q else return_io r2) h2 = (Inr rs, h')"
    unfolding fuzzy_search_def bind_io_eq_Inr by blast
  show ?thesis
  proof (cases "r1 = []")
    case False
    with s2 s3 have "rs = r1" by simp
    with search_Inr [OF s1] r scored show ?thesis by simp
  next
    case True
    with s2 have ts: "title_sample_stage remote sc fmt q th h1 = (Inr r2, h2)" by simp
    show ?thesis
    proof (cases "r2 = []")
      case False
      with s3 have "rs = r2" by simp
      with title_sample_stage_Inr [OF ts] r show ?thesis by fastforce
    next
      case True
      with s3 have "full_text_stage remote sc q h2 = (Inr rs, h')" by simp
      from full_text_stage_Inr [OF this] obtain results where
        sf: "search_full remote q 10 h2 = (Inr results, h')" and
        rest: "if results \<noteq> [] then
                 \<exists>ms. process_extract sc q (map title results) 5 = Inr ms
                   \<and> rs = rerank ms results
               else rs = []" by blast
      from rest r obtain ms where "rs = rerank ms results" by (auto split: if_splits)
      with r have "title r \<in> title ` set results" by (simp add: rerank_titles)
      then obtain x where "x \<in> set results" "title x = title r" by auto
      with search_full_titles [OF sf] show ?thesis by metis
    qed
  qed
qed

lemma get_page_extract_log:
  "snd (get_page_extract remote t h) = h @ [get_page_extract_params t]"
  by (simp add: get_page_extract_def session_get_log)

lemma get_categories_log:
  "snd (get_categories remote t h) = h @ [get_categories_params t]"
  by (simp add: get_categories_def session_get_log)

text \<open>
  C6, as the code has it. When the direct lookup found nothing and the first record of the
  cascade has a score of at least 85, \<^verbatim>\<open>wiki_command\<close> calls \<^verbatim>\<open>get_page_extract\<close> again
  with the title of that record (a string \<open>t\<close>): the request follows those of the
  cascade. If that call returns a page and \<^verbatim>\<open>get_categories\<close> returns for \<open>t\<close>, the outcome
  is that page and not the list; if it returns \<^verbatim>\<open>None\<close>, the outcome is the list of the
  cascade as suggestions. If the call raises, or it returns a page and \<^verbatim>\<open>get_categories\<close>
  raises, the exception leaves the command and there is neither a page nor a list.
\<close>

theorem confident_match_reresolved:
  assumes direct: "get_page_extract remote q h = (Inr None, h1)"
    and cascade: "fuzzy_search remote sc fmt q 60 h1 = (Inr (best # rest), h2)"
    and confident: "85 \<le> score_or_0 best"
  shows "\<exists>t. title best = JStr t
           \<and> take (Suc (length h2)) (snd (wiki_command remote sc fmt q h))
               = h2 @ [get_page_extract_params t]
           \<and> (\<forall>p h3 cats h4.
                 get_page_extract remote t h2 = (Inr (Some p), h3)
               \<and> get_categories remote t h3 = (Inr cats, h4) \<longrightarrow>
                 wiki_command remote sc fmt q h = (Inr (Article p cats), h4))
           \<and> (\<forall>h3. get_page_extract remote t h2 = (Inr None, h3) \<longrightarrow>
                 wiki_command remote sc fmt q h = (Inr (Suggestions (best # rest)), h3))
           \<and> (\<forall>p h3 e h4.
                 get_page_extract remote t h2 = (Inr (Some p), h3)
               \<and> get_categories remote t h3 = (Inl e, h4) \<longrightarrow>
                 wiki_command remote sc fmt q h = (Inl e, h4))
           \<and> (\<forall>e h3. get_page_extract remote t h2 = (Inl e, h3) \<longrightarrow>
                 wiki_command remote sc fmt q h = (Inl e, h3))"
proof -
  from confident have "score best \<noteq> None"
    by (cases "score best") (simp_all add: score_or_0_def)
  with fuzzy_search_scored_title [OF cascade] obtain t where t: "title best = JStr t"
    by auto
  let ?k = "\<lambda>page. case page of
                       Some p \<Rightarrow>
                         bind_io (get_categories remote t) (\<lambda>categories.
                           return_io (Article p categories))
                     | None \<Rightarrow> return_io (Suggestions (best # rest))"
  have w: "wiki_command remote sc fmt q h = bind_io (get_page_extract remote t) ?k h2"
    using direct cascade confident t
    by (simp add: wiki_command_def bind_io_Inr get_page_extract_of_def get_categories_of_def)
  obtain r3 h3 where g: "get_page_extract remote t h2 = (r3, h3)"
    by (cases "get_page_extract remote t h2")
  with get_page_extract_log [of remote t h2] have h3: "h3 = h2 @ [get_page_extract_params t]"
    by simp
  have log: "take (Suc (length h2)) (snd (wiki_command remote sc fmt q h))
               = h2 @ [get_page_extract_params t]"
  proof (cases r3)
    case (Inl e)
    with w g h3 show ?thesis by (simp add: bind_io_def)
  next
    case (Inr page)
    show ?thesis
    proof (cases page)
      case None
      with w g h3 Inr show ?thesis by (simp add: bind_io_def return_io_def)
    next
      case (Some p)
      obtain r4 h4 where c: "get_categories remote t h3 = (r4, h4)"
        by (cases "get_categories remote t h3")
      with get_categories_log [of remote t h3] have "h4 = h3 @ [get_categories_params t]"
        by simp
      with w g h3 Inr Some c show ?thesis
        by (cases r4) (simp_all add: bind_io_def return_io_def)
    qed
  qed
  have page: "\<forall>p h3 cats h4.
                 get_page_extract remote t h2 = (Inr (Some p), h3)
               \<and> get_categories remote t h3 = (Inr cats, h4) \<longrightarrow>
                 wiki_command remote sc fmt q h = (Inr (Article p cats), h4)"
    using w by (simp add: bind_io_def return_io_def)
  have fall: "\<forall>h3. get_page_extract remote t h2 = (Inr None, h3) \<longrightarrow>
                 wiki_command remote sc fmt q h = (Inr (Suggestions (best # rest)), h3)"
    using w by (simp add: bind_io_def return_io_def)
  have lost: "\<forall>p h3 e h4.
                 get_page_extract remote t h2 = (Inr (Some p), h3)
               \<and> get_categories remote t h3 = (Inl e, h4) \<longrightarrow>
                 wiki_command remote sc fmt q h = (Inl e, h4)"
    using w by (simp add: bind_io_def return_io_def)
  have raised: "\<forall>e h3. get_page_extract remote t h2 = (Inl e, h3) \<longrightarrow>
                 wiki_command remote sc fmt q h = (Inl e, h3)"
    using w by (simp add: bind_io_def)
  show ?thesis
    by (rule exI [of _ t]) (intro conjI t log page fall lost raised)
qed

text \<open>Running the lookups at \<^verbatim>\<open>Kweebek\<close> and at \<^verbatim>\<open>trork camp\<close>.\<close>

lemma kweebek_direct:
  "get_page_extract kweebek_wiki ''Kweebek'' h =
     (Inr None, h @ [get_page_extract_params ''Kweebek''])"
  by (simp add: get_page_extract_def session_get_def kweebek_wiki_def
      get_page_extract_parse_def)

lemma kweebec_resolved:
  "get_page_extract kweebek_wiki ''Kweebec'' h =
     (Inr (Some \<lparr>page_title = JStr ''Kweebec'',
          page_extract = JStr ''Kweebecs are a race of tree people.'',
          page_url = JStr ''https://hytalewiki.org/w/Kweebec'', page_thumbnail = JNull\<rparr>),
      h @ [get_page_extract_params ''Kweebec''])"
  by (simp add: get_page_extract_def session_get_def kweebek_wiki_def params_defs
      get_page_extract_parse_def kweebec_page_def)

lemma kweebec_categories:
  "get_categories kweebek_wiki ''Kweebec'' h =
     (Inr [''Races''], h @ [get_categories_params ''Kweebec''])"
  by (simp add: get_categories_def session_get_def kweebek_wiki_def params_defs
      get_categories_parse_def category_name_def replace.simps)

lemma trork_direct:
  "get_page_extract trork_wiki t h = (Inr None, h @ [get_page_extract_params t])"
  by (simp add: get_page_extract_def session_get_def trork_wiki_def params_defs)

lemma categories_lost_session_get:
  "params \<noteq> get_categories_params ''Kweebec'' \<Longrightarrow>
   session_get categories_lost_wiki params on_ok d h = session_get kweebek_wiki params on_ok d h"
  by (simp add: session_get_def categories_lost_wiki_def)

lemma categories_lost_client:
  "get_page_extract categories_lost_wiki = get_page_extract kweebek_wiki"
  "search categories_lost_wiki = search kweebek_wiki"
  "get_all_pages categories_lost_wiki = get_all_pages kweebek_wiki"
  "search_full categories_lost_wiki = search_full kweebek_wiki"
  by (intro ext, simp add: get_page_extract_def search_def get_all_pages_def search_full_def
      categories_lost_session_get params_defs)+

lemma categories_lost_fuzzy_search:
  "fuzzy_search categories_lost_wiki = fuzzy_search kweebek_wiki"
  unfolding fuzzy_search_def title_sample_stage_def full_text_stage_def categories_lost_client
  by (rule refl)

lemma categories_lost_categories:
  "get_categories categories_lost_wiki ''Kweebec'' h =
     (Inl ClientError, h @ [get_categories_params ''Kweebec''])"
  by (simp add: get_categories_def session_get_def categories_lost_wiki_def)

text \<open>
  The theorem at \<^verbatim>\<open>Kweebek\<close>, where \<^verbatim>\<open>Kweebec\<close> scores 88 and resolves to its page, and at
  \<^verbatim>\<open>trork camp\<close>, where \<^verbatim>\<open>Trork Camp\<close> scores 95 and does not resolve.
\<close>

theorem confident_match_reresolved_witness:
  "get_page_extract kweebek_wiki ''Kweebek'' [] =
     (Inr None, [get_page_extract_params ''Kweebek''])
   \<and> fuzzy_search kweebek_wiki kweebek_scorer fmt_whole ''Kweebek'' 60
       [get_page_extract_params ''Kweebek''] =
     (Inr [\<lparr>title = JStr ''Kweebec'', description = JStr ''Coincidencia: 88.0%'',
            url = JStr ''https://hytalewiki.org/w/Kweebec'', score = Some 88\<rparr>,
           \<lparr>title = JStr ''Kweebec village'', description = JStr ''Coincidencia: 62.0%'',
            url = JStr ''https://hytalewiki.org/w/Kweebec_village'', score = Some 62\<rparr>],
      [get_page_extract_params ''Kweebek'', search_params ''Kweebek'' 10,
       get_all_pages_params ''Kweebek'' 50])
   \<and> 85 \<le> score_or_0 \<lparr>title = JStr ''Kweebec'', description = JStr ''Coincidencia: 88.0%'',
            url = JStr ''https://hytalewiki.org/w/Kweebec'', score = Some 88\<rparr>
   \<and> wiki_command kweebek_wiki kweebek_scorer fmt_whole ''Kweebek'' [] =
     (Inr (Article \<lparr>page_title = JStr ''Kweebec'',
          page_extract = JStr ''Kweebecs are a race of tree people.'',
          page_url = JStr ''https://hytalewiki.org/w/Kweebec'', page_thumbnail = JNull\<rparr> [''Races'']),
      [get_page_extract_params ''Kweebek'', search_params ''Kweebek'' 10,
       get_all_pages_params ''Kweebek'' 50, get_page_extract_params ''Kweebec'',
       get_categories_params ''Kweebec''])
   \<and> get_page_extract trork_wiki ''trork camp'' [] =
     (Inr None, [get_page_extract_params ''trork camp''])
   \<and> fuzzy_search trork_wiki trork_scorer fmt_whole ''trork camp'' 60
       [get_page_extract_params ''trork camp''] =
     (Inr [\<lparr>title = JStr ''Trork Camp'', description = JStr ''Trork outpost'',
            url = JStr ''https://hytalewiki.org/w/Trork_Camp'', score = Some 95\<rparr>,
           \<lparr>title = JStr ''Trork'', description = JStr ''A hostile race'',
            url = JStr ''https://hytalewiki.org/w/Trork'', score = Some 57\<rparr>],
      [get_page_extract_params ''trork camp'', search_params ''trork camp'' 10,
       get_all_pages_params ''trork camp'' 50, search_full_params ''trork camp'' 10])
   \<and> 85 \<le> score_or_0 \<lparr>title = JStr ''Trork Camp'', description = JStr ''Trork outpost'',
            url = JStr ''https://hytalewiki.org/w/Trork_Camp'', score = Some 95\<rparr>
   \<and> wiki_command trork_wiki trork_scorer fmt_whole ''trork camp'' [] =
     (Inr (Suggestions [\<lparr>title = JStr ''Trork Camp'', description = JStr ''Trork outpost'',
            url = JStr ''https://hytalewiki.org/w/Trork_Camp'', score = Some 95\<rparr>,
           \<lparr>title = JStr ''Trork'', description = JStr ''A hostile race'',
            url = JStr ''https://hytalewiki.org/w/Trork'', score = Some 57\<rparr>]),
      [get_page_extract_params ''trork camp'', search_params ''trork camp'' 10,
       get_all_pages_params ''trork camp'' 50, search_full_params ''trork camp'' 10,
       get_page_extract_params ''Trork Camp''])"
proof -
  have kd: "get_page_extract kweebek_wiki ''Kweebek'' [] =
     (Inr None, [get_page_extract_params ''Kweebek''])"
    using kweebek_direct [of "[]"] by simp
  have kc: "fuzzy_search kweebek_wiki kweebek_scorer fmt_whole ''Kweebek'' 60
       [get_page_extract_params ''Kweebek''] =
     (Inr [\<lparr>title = JStr ''Kweebec'', description = JStr ''Coincidencia: 88.0%'',
            url = JStr ''https://hytalewiki.org/w/Kweebec'', score = Some 88\<rparr>,
           \<lparr>title = JStr ''Kweebec village'', description = JStr ''Coincidencia: 62.0%'',
            url = JStr ''https://hytalewiki.org/w/Kweebec_village'', score = Some 62\<rparr>],
      [get_page_extract_params ''Kweebek'', search_params ''Kweebek'' 10,
       get_all_pages_params ''Kweebek'' 50])"
    using kweebek_fuzzy_search [of "[get_page_extract_params ''Kweebek'']"] by simp
  have ks: "85 \<le> score_or_0 \<lparr>title = JStr ''Kweebec'', description = JStr ''Coincidencia: 88.0%'',
            url = JStr ''https://hytalewiki.org/w/Kweebec'', score = Some 88\<rparr>"
    by (simp add: score_or_0_def)
  from confident_match_reresolved [OF kd kc ks] obtain t where
    t: "JStr ''Kweebec'' = JStr t" and
    page: "\<forall>p h3 cats h4.
        get_page_extract kweebek_wiki t [get_page_extract_params ''Kweebek'',
          search_params ''Kweebek'' 10, get_all_pages_params ''Kweebek'' 50]
          = (Inr (Some p), h3)
      \<and> get_categories kweebek_wiki t h3 = (Inr cats, h4) \<longrightarrow>
        wiki_command kweebek_wiki kweebek_scorer fmt_whole ''Kweebek'' [] =
          (Inr (Article p cats), h4)"
    by auto
  from t have t': "t = ''Kweebec''" by simp
  have kw: "wiki_command kweebek_wiki kweebek_scorer fmt_whole ''Kweebek'' [] =
     (Inr (Article \<lparr>page_title = JStr ''Kweebec'',
          page_extract = JStr ''Kweebecs are a race of tree people.'',
          page_url = JStr ''https://hytalewiki.org/w/Kweebec'', page_thumbnail = JNull\<rparr> [''Races'']),
      [get_page_extract_params ''Kweebek'', search_params ''Kweebek'' 10,
       get_all_pages_params ''Kweebek'' 50, get_page_extract_params ''Kweebec'',
       get_categories_params ''Kweebec''])"
    using page [rule_format, of _ _ _ _, OF conjI
        [OF kweebec_resolved [of "[get_page_extract_params ''Kweebek'',
          search_params ''Kweebek'' 10, get_all_pages_params ''Kweebek'' 50]",
          folded t'] kweebec_categories [folded t']]]
    by (simp add: t')
  have td: "get_page_extract trork_wiki ''trork camp'' [] =
     (Inr None, [get_page_extract_params ''trork camp''])"
    using trork_direct [of "''trork camp''" "[]"] by simp
  have tc: "fuzzy_search trork_wiki trork_scorer fmt_whole ''trork camp'' 60
       [get_page_extract_params ''trork camp''] =
     (Inr [\<lparr>title = JStr ''Trork Camp'', description = JStr ''Trork outpost'',
            url = JStr ''https://hytalewiki.org/w/Trork_Camp'', score = Some 95\<rparr>,
           \<lparr>title = JStr ''Trork'', description = JStr ''A hostile race'',
            url = JStr ''https://hytalewiki.org/w/Trork'', score = Some 57\<rparr>],
      [get_page_extract_params ''trork camp'', search_params ''trork camp'' 10,
       get_all_pages_params ''trork camp'' 50, search_full_params ''trork camp'' 10])"
    using trork_fuzzy_search [of "[get_page_extract_params ''trork camp'']"] by simp
  have ts: "85 \<le> score_or_0 \<lparr>title = JStr ''Trork Camp'', description = JStr ''Trork outpost'',
            url = JStr ''https://hytalewiki.org/w/Trork_Camp'', score = Some 95\<rparr>"
    by (simp add: score_or_0_def)
  from confident_match_reresolved [OF td tc ts] obtain u where
    u: "JStr ''Trork Camp'' = JStr u" and
    fall: "\<forall>h3. get_page_extract trork_wiki u [get_page_extract_params ''trork camp'',
          search_params ''trork camp'' 10, get_all_pages_params ''trork camp'' 50,
          search_full_params ''trork camp'' 10] = (Inr None, h3) \<longrightarrow>
        wiki_command trork_wiki trork_scorer fmt_whole ''trork camp'' [] =
          (Inr (Suggestions [\<lparr>title = JStr ''Trork Camp'', description = JStr ''Trork outpost'',
            url = JStr ''https://hytalewiki.org/w/Trork_Camp'', score = Some 95\<rparr>,
           \<lparr>title = JStr ''Trork'', description = JStr ''A hostile race'',
            url = JStr ''https://hytalewiki.org/w/Trork'', score = Some 57\<rparr>]), h3)"
    by auto
  from u have u': "u = ''Trork Camp''" by simp
  have tw: "wiki_command trork_wiki trork_scorer fmt_whole ''trork camp'' [] =
     (Inr (Suggestions [\<lparr>title = JStr ''Trork Camp'', description = JStr ''Trork outpost'',
            url = JStr ''https://hytalewiki.org/w/Trork_Camp'', score = Some 95\<rparr>,
           \<lparr>title = JStr ''Trork'', description = JStr ''A hostile race'',
            url = JStr ''https://hytalewiki.org/w/Trork'', score = Some 57\<rparr>]),
      [get_page_extract_params ''trork camp'', search_params ''trork camp'' 10,
       get_all_pages_params ''trork camp'' 50, search_full_params ''trork camp'' 10,
       get_page_extract_params ''Trork Camp''])"
    using fall [rule_format, OF trork_direct] by (simp add: u')
  show ?thesis
    by (rule conjI [OF kd conjI [OF kc conjI [OF ks conjI [OF kw conjI [OF td conjI [OF tc
        conjI [OF ts tw]]]]]]])
qed

text \<open>
  The claim C6 itself fails: a page that was re-resolved is not always returned. Between
  \<^verbatim>\<open>get_page_extract(best_match["title"])\<close> and the embed stands
  \<^verbatim>\<open>get_categories(best_match["title"])\<close>, and nothing catches what it raises. Where the
  connection is lost on that request, the top candidate has the score 88, its page is
  re-resolved, and the command ends in a \<^verbatim>\<open>ClientError\<close>: neither the page nor the list
  of suggestions is returned.
\<close>

theorem confident_match_categories_lost:
  "get_page_extract categories_lost_wiki ''Kweebek'' [] =
     (Inr None, [get_page_extract_params ''Kweebek''])
   \<and> fuzzy_search categories_lost_wiki kweebek_scorer fmt_whole ''Kweebek'' 60
       [get_page_extract_params ''Kweebek''] =
     (Inr [\<lparr>title = JStr ''Kweebec'', description = JStr ''Coincidencia: 88.0%'',
            url = JStr ''https://hytalewiki.org/w/Kweebec'', score = Some 88\<rparr>,
           \<lparr>title = JStr ''Kweebec village'', description = JStr ''Coincidencia: 62.0%'',
            url = JStr ''https://hytalewiki.org/w/Kweebec_village'', score = Some 62\<rparr>],
      [get_page_extract_params ''Kweebek'', search_params ''Kweebek'' 10,
       get_all_pages_params ''Kweebek'' 50])
   \<and> 85 \<le> score_or_0 \<lparr>title = JStr ''Kweebec'', description = JStr ''Coincidencia: 88.0%'',
            url = JStr ''https://hytalewiki.org/w/Kweebec'', score = Some 88\<rparr>
   \<and> get_page_extract categories_lost_wiki ''Kweebec''
       [get_page_extract_params ''Kweebek'', search_params ''Kweebek'' 10,
        get_all_pages_params ''Kweebek'' 50] =
     (Inr (Some \<lparr>page_title = JStr ''Kweebec'',
          page_extract = JStr ''Kweebecs are a race of tree people.'',
          page_url = JStr ''https://hytalewiki.org/w/Kweebec'', page_thumbnail = JNull\<rparr>),
      [get_page_extract_params ''Kweebek'', search_params ''Kweebek'' 10,
       get_all_pages_params ''Kweebek'' 50, get_page_extract_params ''Kweebec''])
   \<and> wiki_command categories_lost_wiki kweebek_scorer fmt_whole ''Kweebek'' [] =
     (Inl ClientError,
      [get_page_extract_params ''Kweebek'', search_params ''Kweebek'' 10,
       get_all_pages_params ''Kweebek'' 50, get_page_extract_params ''Kweebec'',
       get_categories_params ''Kweebec''])"
  by (simp add: wiki_command_def bind_io_def categories_lost_client categories_lost_fuzzy_search
      kweebek_direct kweebek_fuzzy_search kweebec_resolved categories_lost_categories
      score_or_0_def get_page_extract_of_def get_categories_of_def)

section \<open>The outcomes of wiki_command\<close>







end
